theory Spec2Isabelle
  imports Complex_Main
begin

section \<open>JavaScript values used by the orchestration code\<close>

text \<open>
  A JavaScript string is modelled as a \<^typ>\<open>string\<close>, one \<^typ>\<open>char\<close> per code
  unit, for the code units up to 255 (so the glyph U+00AB is \<open>CHR 0xAB\<close>).  A value
  that the code tests for truthiness is falsy when it is absent or the empty string.
\<close>

datatype js_error =
    Error string
  | SomReannotationRequiredError string
  | NavigationInProgressError string

fun message :: "js_error \<Rightarrow> string" where
  "message (Error m) = m"
| "message (SomReannotationRequiredError m) = m"
| "message (NavigationInProgressError m) = m"

definition truthy :: "string option \<Rightarrow> bool" where
  "truthy v \<longleftrightarrow> (case v of None \<Rightarrow> False | Some s \<Rightarrow> s \<noteq> [])"

text \<open>White space and line terminators of the language, among the code units up to 255.\<close>

definition isStrWhiteSpace :: "char \<Rightarrow> bool" where
  "isStrWhiteSpace c \<longleftrightarrow> (of_char c :: nat) \<in> {9, 10, 11, 12, 13, 32, 160}"

definition trim :: "string \<Rightarrow> string" where
  "trim s = rev (dropWhile isStrWhiteSpace (rev (dropWhile isStrWhiteSpace s)))"

subsection \<open>Numbers and \<open>Number(string)\<close>\<close>

text \<open>
  A number is a finite value, \<open>NaN\<close> or an infinity.  Finite values are kept as exact
  rationals: the rounding of a literal to the nearest double is not modelled, except
  that a magnitude of at least \<open>2^1024 - 2^970\<close> becomes an infinity, which is what
  \<open>Number.isFinite\<close> observes.
\<close>

datatype number = Num rat | NaN | PosInfinity | NegInfinity

fun isFinite :: "number \<Rightarrow> bool" where
  "isFinite (Num q) = True"
| "isFinite _ = False"

fun negate :: "number \<Rightarrow> number" where
  "negate (Num q) = Num (- q)"
| "negate NaN = NaN"
| "negate PosInfinity = NegInfinity"
| "negate NegInfinity = PosInfinity"

definition toDouble :: "rat \<Rightarrow> number" where
  "toDouble q =
     (if 2 ^ 1024 - 2 ^ 970 \<le> q then PosInfinity
      else if q \<le> - (2 ^ 1024 - 2 ^ 970) then NegInfinity
      else Num q)"

definition isDecimalDigit :: "char \<Rightarrow> bool" where
  "isDecimalDigit c \<longleftrightarrow> 48 \<le> (of_char c :: nat) \<and> (of_char c :: nat) \<le> 57"

definition isHexDigit :: "char \<Rightarrow> bool" where
  "isHexDigit c \<longleftrightarrow>
     isDecimalDigit c
     \<or> (97 \<le> (of_char c :: nat) \<and> (of_char c :: nat) \<le> 102)
     \<or> (65 \<le> (of_char c :: nat) \<and> (of_char c :: nat) \<le> 70)"

definition isOctalDigit :: "char \<Rightarrow> bool" where
  "isOctalDigit c \<longleftrightarrow> 48 \<le> (of_char c :: nat) \<and> (of_char c :: nat) \<le> 55"

definition isBinaryDigit :: "char \<Rightarrow> bool" where
  "isBinaryDigit c \<longleftrightarrow> c = CHR ''0'' \<or> c = CHR ''1''"

definition digitValue :: "char \<Rightarrow> nat" where
  "digitValue c =
     (let n = (of_char c :: nat) in
      if 48 \<le> n \<and> n \<le> 57 then n - 48
      else if 97 \<le> n \<and> n \<le> 102 then n - 87
      else n - 55)"

definition digitsValue :: "nat \<Rightarrow> string \<Rightarrow> nat" where
  "digitsValue radix ds = foldl (\<lambda>acc c. acc * radix + digitValue c) 0 ds"

definition scaleDecimal :: "nat \<Rightarrow> int \<Rightarrow> rat" where
  "scaleDecimal m e =
     (if 0 \<le> e then of_nat m * 10 ^ nat e else of_nat m / 10 ^ nat (- e))"

text \<open>The exponent part of a decimal literal: empty, or \<open>e\<close>/\<open>E\<close>, a sign, digits.\<close>

definition exponentPart :: "string \<Rightarrow> int option" where
  "exponentPart s =
     (case s of
        [] \<Rightarrow> Some 0
      | c # r \<Rightarrow>
          if c = CHR ''e'' \<or> c = CHR ''E'' then
            (let neg = (r \<noteq> [] \<and> hd r = CHR ''-'');
                 ds = (if r \<noteq> [] \<and> (hd r = CHR ''+'' \<or> hd r = CHR ''-'') then tl r else r)
             in if ds \<noteq> [] \<and> list_all isDecimalDigit ds
                then Some ((if neg then - 1 else 1) * int (digitsValue 10 ds))
                else None)
          else None)"

definition strUnsignedDecimalLiteral :: "string \<Rightarrow> number" where
  "strUnsignedDecimalLiteral s =
     (if s = ''Infinity'' then PosInfinity
      else
        let ip = takeWhile isDecimalDigit s;
            r1 = dropWhile isDecimalDigit s;
            hasDot = (r1 \<noteq> [] \<and> hd r1 = CHR ''.'');
            fp = (if hasDot then takeWhile isDecimalDigit (tl r1) else []);
            r2 = (if hasDot then dropWhile isDecimalDigit (tl r1) else r1)
        in if ip = [] \<and> fp = [] then NaN
           else (case exponentPart r2 of
                   None \<Rightarrow> NaN
                 | Some e \<Rightarrow>
                     toDouble (scaleDecimal (digitsValue 10 (ip @ fp)) (e - int (length fp)))))"

definition strDecimalLiteral :: "string \<Rightarrow> number" where
  "strDecimalLiteral s =
     (case s of
        [] \<Rightarrow> NaN
      | c # r \<Rightarrow>
          if c = CHR ''+'' then strUnsignedDecimalLiteral r
          else if c = CHR ''-'' then negate (strUnsignedDecimalLiteral r)
          else strUnsignedDecimalLiteral s)"

definition radixLiteral :: "(char \<Rightarrow> bool) \<Rightarrow> nat \<Rightarrow> string \<Rightarrow> number" where
  "radixLiteral ok radix ds =
     (if ds \<noteq> [] \<and> list_all ok ds then toDouble (of_nat (digitsValue radix ds)) else NaN)"

definition nonDecimalIntegerLiteral :: "string \<Rightarrow> number option" where
  "nonDecimalIntegerLiteral s =
     (case s of
        z # p # ds \<Rightarrow>
          if z \<noteq> CHR ''0'' then None
          else if p = CHR ''x'' \<or> p = CHR ''X'' then Some (radixLiteral isHexDigit 16 ds)
          else if p = CHR ''o'' \<or> p = CHR ''O'' then Some (radixLiteral isOctalDigit 8 ds)
          else if p = CHR ''b'' \<or> p = CHR ''B'' then Some (radixLiteral isBinaryDigit 2 ds)
          else None
      | _ \<Rightarrow> None)"

text \<open>\<open>Number(value)\<close> on a string: the empty or blank string is 0.\<close>

definition Number :: "string \<Rightarrow> number" where
  "Number s =
     (let t = trim s in
      if t = [] then Num 0
      else (case nonDecimalIntegerLiteral t of
              Some n \<Rightarrow> n
            | None \<Rightarrow> strDecimalLiteral t))"

text \<open>
  Decimal rendering of a natural number, which is what a template literal gives for
  the non-negative integers below \<open>10^21\<close>.
\<close>

definition digitChar :: "nat \<Rightarrow> char" where
  "digitChar d = ''0123456789'' ! d"

function showNat :: "nat \<Rightarrow> string" where
  "showNat n =
     (if n < 10 then [digitChar n]
      else showNat (n div 10) @ [digitChar (n mod 10)])"
  by pat_completeness auto
termination
  by (relation "measure id") auto

declare showNat.simps [simp del]

definition showInt :: "int \<Rightarrow> string" where
  "showInt i = (if i < 0 then CHR ''-'' # showNat (nat (- i)) else showNat (nat i))"

section \<open>Commands, results and the oracle's response (som-types.ts, types.ts)\<close>

datatype InteractionAction =
    CLICK | DOUBLE_CLICK | RIGHT_CLICK
  | HOVER | MOUSE_DOWN | MOUSE_UP | DRAG
  | FILL | TYPE_TEXT | CLEAR
  | PRESS | PRESS_SEQUENTIALLY
  | SELECT | CHECK | UNCHECK
  | FOCUS | BLUR | SCROLL | SCROLL_INTO_VIEW | WAIT_FOR
  | NAVIGATE | GO_BACK | GO_FORWARD | RELOAD

record Coordinate =
  coord_x :: rat
  coord_y :: rat

record SomCommand =
  elementRef :: "string option"
  action :: InteractionAction
  coord :: "Coordinate option"
  val :: "string option"
  force :: bool
  durationSeconds :: "number option"

datatype CommandRunStatus = SUCCESS | FAILURE

record CommandAttempt =
  command :: "string option"
  attemptStatus :: CommandRunStatus
  attemptError :: "string option"

record SemanticCommandResult =
  failedAttempts :: "CommandAttempt list"
  successAttempt :: "CommandAttempt option"
  error :: "string option"
  status :: CommandRunStatus
  mutations :: "string list option"

text \<open>
  The oracle's validated response.  A flag that the code only tests for truthiness is a
  \<^typ>\<open>bool\<close> (absent is \<open>False\<close>); a field that the code compares with
  \<open>undefined\<close> is an option.  The confidence is a JSON number between 0 and 100; the
  model covers the integral ones.
\<close>

record AiActionResult =
  preCommands :: "SomCommand list option"
  commandsToRun :: "SomCommand list option"
  extractedContentList :: "string list option"
  extractedContent :: "string option"
  confidence :: "int option"
  verificationSuccess :: "bool option"
  verificationReason :: "string option"
  shouldWait :: bool
  needsRetryAfterPreActions :: bool
  requestSomRefresh :: bool
  stepCompleted :: bool

definition emptyResponse :: AiActionResult where
  "emptyResponse =
     \<lparr> preCommands = None, commandsToRun = None, extractedContentList = None,
       extractedContent = None, confidence = None, verificationSuccess = None,
       verificationReason = None, shouldWait = False, needsRetryAfterPreActions = False,
       requestSomRefresh = False, stepCompleted = False \<rparr>"

section \<open>extract(): computeExtractResult (index.ts)\<close>

datatype ExtractReturnType = RT_string_array | RT_string | RT_int_array | RT_int

datatype extracted =
    StringValue string
  | StringArray "string list"
  | NumberValue number
  | NumberArray "number list"

definition castToNumber :: "string \<Rightarrow> string \<Rightarrow> js_error + number" where
  "castToNumber v fieldName =
     (let parsed = Number v in
      if \<not> isFinite parsed
      then Inl (Error (''Expected numeric value for '' @ fieldName @ '', received: '' @ v))
      else Inr parsed)"

fun castStringArrayToNumbers :: "string list \<Rightarrow> string \<Rightarrow> js_error + number list" where
  "castStringArrayToNumbers [] fieldName = Inr []"
| "castStringArrayToNumbers (v # vs) fieldName =
     (case castToNumber v fieldName of
        Inl e \<Rightarrow> Inl e
      | Inr n \<Rightarrow>
          (case castStringArrayToNumbers vs fieldName of
             Inl e \<Rightarrow> Inl e
           | Inr ns \<Rightarrow> Inr (n # ns)))"

text \<open>
  \<open>options\<close> is the requested return type; \<open>None\<close> stands for absent options or an
  absent \<open>return_type\<close>, which the code reads as \<open>'string'\<close>.
\<close>

definition computeExtractResult ::
  "AiActionResult \<Rightarrow> ExtractReturnType option \<Rightarrow> js_error + extracted" where
  "computeExtractResult result options =
     (let returnType = (case options of None \<Rightarrow> RT_string | Some t \<Rightarrow> t);
          lst = (case extractedContentList result of None \<Rightarrow> [] | Some l \<Rightarrow> l);
          content = extractedContent result
      in if \<not> truthy content \<and> length lst = 0
         then Inl (Error ''LLM response did not include extracted content.'')
         else (case returnType of
                 RT_string_array \<Rightarrow>
                   Inr (StringArray
                     (if length lst > 0 then lst
                      else if truthy content then [the content] else []))
               | RT_int_array \<Rightarrow>
                   map_sum id NumberArray
                     (castStringArrayToNumbers
                        (if length lst > 0 then lst
                         else if truthy content then [the content] else [])
                        ''extractedContentList'')
               | RT_int \<Rightarrow>
                   if truthy content
                   then map_sum id NumberValue (castToNumber (the content) ''extractedContent'')
                   else if length lst = 1
                   then map_sum id NumberValue (castToNumber (lst ! 0) ''extractedContentList'')
                   else Inl (Error ''Expected a single numeric value in extractedContent.'')
               | RT_string \<Rightarrow>
                   if length lst > 1 then Inr (StringArray lst)
                   else if length lst = 1 then Inr (StringValue (lst ! 0))
                   else if truthy content then Inr (StringValue (the content))
                   else Inl (Error ''Expected extractedContent to be a string.'')))"

text \<open>
  \<open>extract()\<close>: one round trip.  The screenshot capture and the oracle call are the
  environment's: each either returns or throws.
\<close>

definition extract_fn ::
  "bool \<Rightarrow> js_error + unit \<Rightarrow> js_error + AiActionResult \<Rightarrow> ExtractReturnType option
     \<Rightarrow> js_error + extracted" where
  "extract_fn hasPage screenshot aiResult options =
     (if \<not> hasPage then Inl (Error ''extract() requires a Playwright page instance.'')
      else (case screenshot of
              Inl e \<Rightarrow> Inl e
            | Inr _ \<Rightarrow>
                (case aiResult of
                   Inl e \<Rightarrow> Inl e
                 | Inr r \<Rightarrow> computeExtractResult r options)))"

section \<open>Element descriptors and selectors (som-types.ts)\<close>

record BBox =
  bbox_x :: rat
  bbox_y :: rat
  width :: rat
  height :: rat

record ParentSummary =
  parentTag :: string
  parentRole :: string
  parentClassName :: string
  parentText :: string

text \<open>
  \<open>SomElement\<close>.  The fields \<open>text\<close>, \<open>name\<close>, \<open>type\<close> and \<open>id\<close> of the source are
  \<open>elemText\<close>, \<open>elemName\<close>, \<open>elemType\<close> and \<open>elemId\<close> here; an absent
  \<open>hasVisiblePseudoElement\<close> is \<open>False\<close>.
\<close>

record SomElement =
  somId :: string
  tag :: string
  role :: string
  elemText :: string
  ariaLabel :: string
  labelText :: string
  placeholder :: string
  elemName :: string
  elemType :: string
  elemId :: string
  className :: string
  bbox :: BBox
  hasVisiblePseudoElement :: bool
  parent :: "ParentSummary option"

datatype SelectorType =
    T_id | T_testId | T_label | T_role | T_placeholder | T_text | T_title | T_altText
  | T_name | T_locator

datatype TypedSelector =
  TypedSelector (selType: SelectorType) (selValue: string) (roleOptions: "string option")
    (selParent: "TypedSelector option")

subsection \<open>String operations\<close>

definition startsWith :: "string \<Rightarrow> string \<Rightarrow> bool" where
  "startsWith s p \<longleftrightarrow> take (length p) s = p"

fun strIncludes :: "string \<Rightarrow> string \<Rightarrow> bool" where
  "strIncludes [] sub = (sub = [])"
| "strIncludes (c # cs) sub = (startsWith (c # cs) sub \<or> strIncludes cs sub)"

text \<open>\<open>s.split(' ')[0]\<close>: the part of \<open>s\<close> before its first space.\<close>

definition firstSpaceSegment :: "string \<Rightarrow> string" where
  "firstSpaceSegment s = takeWhile (\<lambda>c. c \<noteq> CHR '' '') s"

text \<open>\<open>s.split(/\s+/).map(trim).filter(Boolean)\<close>: the maximal runs of non-blank code units.\<close>

fun splitTokens :: "string \<Rightarrow> string \<Rightarrow> string list" where
  "splitTokens cur [] = (if cur = [] then [] else [cur])"
| "splitTokens cur (c # cs) =
     (if isStrWhiteSpace c
      then (if cur = [] then splitTokens [] cs else cur # splitTokens [] cs)
      else splitTokens (cur @ [c]) cs)"

definition classTokens :: "string \<Rightarrow> string list" where
  "classTokens s = splitTokens [] s"

definition lowerChar :: "char \<Rightarrow> char" where
  "lowerChar c =
     (let n = (of_char c :: nat) in
      if (65 \<le> n \<and> n \<le> 90) \<or> (192 \<le> n \<and> n \<le> 222 \<and> n \<noteq> 215)
      then char_of (n + 32) else c)"

definition toLowerCase :: "string \<Rightarrow> string" where
  "toLowerCase s = map lowerChar s"

section \<open>Selector Synthesizer: generateSemanticSelectors (som-handler.ts)\<close>

definition push :: "'a list \<Rightarrow> 'a \<Rightarrow> 'a list" where
  "push xs v = xs @ [v]"

text \<open>
  The function is a sequence of guarded pushes onto \<open>selectors\<close>; each guarded push is a
  step here, named after the priority comment that introduces it in the source.
\<close>

definition stableIdStep :: "SomElement \<Rightarrow> TypedSelector list \<Rightarrow> TypedSelector list" where
  "stableIdStep element selectors =
     (if elemId element \<noteq> [] \<and> \<not> strIncludes (elemId element) '':''
         \<and> \<not> (startsWith (elemId element) ''rc_'' \<or> startsWith (elemId element) ''__'')
         \<and> \<not> strIncludes (elemId element) [CHR 0xAB]
      then push selectors (TypedSelector T_id (elemId element) None None)
      else selectors)"

definition labelStep :: "SomElement \<Rightarrow> TypedSelector list \<Rightarrow> TypedSelector list" where
  "labelStep element selectors =
     (if labelText element \<noteq> []
      then push selectors (TypedSelector T_label (labelText element) None None)
      else selectors)"

definition nameStep :: "SomElement \<Rightarrow> TypedSelector list \<Rightarrow> TypedSelector list" where
  "nameStep element selectors =
     (if elemName element \<noteq> [] \<and> tag element \<in> set [''input'', ''textarea'', ''select'']
      then push selectors (TypedSelector T_name (elemName element) None None)
      else selectors)"

definition placeholderStep :: "SomElement \<Rightarrow> TypedSelector list \<Rightarrow> TypedSelector list" where
  "placeholderStep element selectors =
     (if placeholder element \<noteq> []
      then push selectors (TypedSelector T_placeholder (placeholder element) None None)
      else selectors)"

definition pseudoElementStep :: "SomElement \<Rightarrow> TypedSelector list \<Rightarrow> TypedSelector list" where
  "pseudoElementStep element selectors =
     (if hasVisiblePseudoElement element \<and> tag element = ''button''
      then
        (let selectors =
               (if elemType element = ''submit''
                then push selectors
                       (TypedSelector T_locator
                          (''button[type='' @ [CHR 0x22] @ ''submit'' @ [CHR 0x22] @ '']'') None None)
                else selectors)
         in if className element \<noteq> []
            then
              (let firstClass = firstSpaceSegment (className element)
               in if firstClass \<noteq> []
                     \<and> \<not> (startsWith firstClass ''css-'' \<or> startsWith firstClass ''MuiButton-''
                           \<or> startsWith firstClass ''ant-'' \<or> startsWith firstClass ''btn-'')
                  then push selectors (TypedSelector T_locator (''button.'' @ firstClass) None None)
                  else selectors)
            else selectors)
      else selectors)"

definition roleStep :: "SomElement \<Rightarrow> TypedSelector list \<Rightarrow> TypedSelector list" where
  "roleStep element selectors =
     (if \<not> hasVisiblePseudoElement element \<and> role element \<noteq> []
      then
        (let accessibleName =
               (if ariaLabel element \<noteq> [] then ariaLabel element else elemText element)
         in if accessibleName \<noteq> []
            then push selectors (TypedSelector T_role (role element) (Some accessibleName) None)
            else selectors)
      else selectors)"

definition textStep :: "SomElement \<Rightarrow> TypedSelector list \<Rightarrow> TypedSelector list" where
  "textStep element selectors =
     (if \<not> hasVisiblePseudoElement element \<and> elemText element \<noteq> []
      then push selectors (TypedSelector T_text (elemText element) None None)
      else selectors)"

definition parentScopedStep :: "SomElement \<Rightarrow> TypedSelector list \<Rightarrow> TypedSelector list" where
  "parentScopedStep element selectors =
     (case parent element of
        None \<Rightarrow> selectors
      | Some p \<Rightarrow>
          if parentClassName p \<noteq> []
          then
            (let parentClass = firstSpaceSegment (parentClassName p)
             in if parentClass \<noteq> []
                then push selectors
                       (TypedSelector T_locator (''.'' @ parentClass @ '' '' @ tag element) None None)
                else selectors)
          else selectors)"

definition generateSemanticSelectors :: "SomElement \<Rightarrow> TypedSelector list" where
  "generateSemanticSelectors element =
     (let selectors = [];
          selectors = stableIdStep element selectors;
          selectors = labelStep element selectors;
          selectors = nameStep element selectors;
          selectors = placeholderStep element selectors;
          selectors = pseudoElementStep element selectors;
          selectors = roleStep element selectors;
          selectors = textStep element selectors;
          selectors = parentScopedStep element selectors
      in selectors)"

section \<open>Target Reconciler: resolveSomTarget (som-handler.js)\<close>

text \<open>
  What the in-page query reads from one live node that carries the marker attribute:
  its tag name, its class attribute and text content (\<open>None\<close> when null or empty),
  its \<open>aria-label\<close> attribute and its bounding rectangle.
\<close>

record LiveNode =
  nodeTagName :: string
  nodeClassName :: "string option"
  nodeTextContent :: "string option"
  nodeAriaLabel :: "string option"
  nodeRect :: BBox

record Candidate =
  candIndex :: nat
  candTag :: string
  candClassName :: string
  candText :: string
  candAriaLabel :: string
  candBBox :: BBox
  score :: "int option"

definition orEmpty :: "string option \<Rightarrow> string" where
  "orEmpty v = (case v of None \<Rightarrow> [] | Some s \<Rightarrow> s)"

definition describeNode :: "nat \<Rightarrow> LiveNode \<Rightarrow> Candidate" where
  "describeNode idx node =
     \<lparr> candIndex = idx,
       candTag = toLowerCase (nodeTagName node),
       candClassName = orEmpty (nodeClassName node),
       candText = trim (orEmpty (nodeTextContent node)),
       candAriaLabel = orEmpty (nodeAriaLabel node),
       candBBox = nodeRect node,
       score = None \<rparr>"

definition queryMarked :: "LiveNode list \<Rightarrow> Candidate list" where
  "queryMarked nodes = map (\<lambda>(idx, node). describeNode idx node) (enumerate 0 nodes)"

definition scoreCandidate :: "SomElement \<Rightarrow> Candidate \<Rightarrow> int" where
  "scoreCandidate expected candidate =
     (let expectedTag = toLowerCase (tag expected);
          expectedText = trim (elemText expected);
          expectedAria = trim (ariaLabel expected);
          expectedClassTokens = classTokens (className expected);
          expectedBBox = bbox expected;
          candidateClassTokens = classTokens (candClassName candidate);
          score = 0;
          score = (if candTag candidate = expectedTag \<and> expectedTag \<noteq> [] then score + 5 else score);
          score =
            (if expectedClassTokens \<noteq> []
             then
               (let hasAllClasses = list_all (\<lambda>cls. cls \<in> set candidateClassTokens) expectedClassTokens;
                    overlap = list_ex (\<lambda>cls. cls \<in> set candidateClassTokens) expectedClassTokens
                in if hasAllClasses then score + 5
                   else if overlap then score + 3
                   else score)
             else score);
          candidateText = trim (candText candidate);
          score =
            (if expectedText \<noteq> []
             then
               (if candidateText = expectedText then score + 4
                else if strIncludes candidateText expectedText then score + 2
                else score)
             else score);
          candidateAria = trim (candAriaLabel candidate);
          score = (if expectedAria \<noteq> [] \<and> candidateAria = expectedAria then score + 2 else score);
          box = candBBox candidate;
          score =
            (if width expectedBBox \<noteq> 0 \<and> height expectedBBox \<noteq> 0
             then
               (let widthDiff = \<bar>width box - width expectedBBox\<bar>;
                    heightDiff = \<bar>height box - height expectedBBox\<bar>
                in if widthDiff < 2 \<and> heightDiff < 2 then score + 2
                   else if widthDiff < 6 \<and> heightDiff < 6 then score + 1
                   else score)
             else score)
      in score)"

definition withScore :: "SomElement \<Rightarrow> Candidate \<Rightarrow> Candidate" where
  "withScore expected candidate = candidate\<lparr>score := Some (scoreCandidate expected candidate)\<rparr>"

definition scoreOf :: "Candidate \<Rightarrow> int" where
  "scoreOf c = (case score c of None \<Rightarrow> 0 | Some v \<Rightarrow> v)"

text \<open>The loop that keeps the best candidate, started from \<open>scored[0]\<close>.\<close>

definition better :: "Candidate \<Rightarrow> Candidate \<Rightarrow> Candidate" where
  "better best candidate =
     (if scoreOf candidate > scoreOf best
         \<or> (scoreOf candidate = scoreOf best \<and> candIndex candidate < candIndex best)
      then candidate else best)"

definition pickBest :: "Candidate list \<Rightarrow> Candidate" where
  "pickBest scored = foldl better (scored ! 0) scored"

record Resolution =
  resIndex :: nat
  duplicateCount :: nat
  candidates :: "Candidate list"

text \<open>
  \<open>resolveSomTarget\<close>; \<open>queried\<close> is the outcome of the in-page query, which returns
  the live nodes that carry the marker or throws.
\<close>

definition resolveSomTarget ::
  "js_error + LiveNode list \<Rightarrow> string \<Rightarrow> SomElement \<Rightarrow> js_error + Resolution" where
  "resolveSomTarget queried ref expected =
     (case queried of
        Inl e \<Rightarrow> Inl e
      | Inr nodes \<Rightarrow>
          (let duplicates = queryMarked nodes;
               duplicateCount = length duplicates
           in if duplicateCount \<le> 1
              then Inr \<lparr> resIndex = 0, duplicateCount = duplicateCount, candidates = duplicates \<rparr>
              else
                (let scored = map (withScore expected) duplicates;
                     best = pickBest scored
                 in if scoreOf best \<le> 0
                    then Inl (SomReannotationRequiredError
                           (''Duplicate SoM id '' @ [CHR 0x22] @ ref @ [CHR 0x22]
                              @ '' no longer matches original element''))
                    else Inr \<lparr> resIndex = candIndex best, duplicateCount = duplicateCount,
                              candidates = scored \<rparr>)))"

text \<open>
  \<open>outranked c best\<close>: the loop would not replace \<open>best\<close> by \<open>c\<close>, that is, \<open>c\<close> has a
  lower score, or the same score and an index that is not lower.
\<close>

definition outranked :: "Candidate \<Rightarrow> Candidate \<Rightarrow> bool" where
  "outranked c best \<longleftrightarrow>
     scoreOf c < scoreOf best \<or> (scoreOf c = scoreOf best \<and> candIndex best \<le> candIndex c)"

section \<open>Action Executor: runCommand (som-handler.ts)\<close>

fun actionName :: "InteractionAction \<Rightarrow> string" where
  "actionName CLICK = ''click''"
| "actionName DOUBLE_CLICK = ''doubleClick''"
| "actionName RIGHT_CLICK = ''rightClick''"
| "actionName HOVER = ''hover''"
| "actionName MOUSE_DOWN = ''mouseDown''"
| "actionName MOUSE_UP = ''mouseUp''"
| "actionName DRAG = ''drag''"
| "actionName FILL = ''fill''"
| "actionName TYPE_TEXT = ''type''"
| "actionName CLEAR = ''clear''"
| "actionName PRESS = ''press''"
| "actionName PRESS_SEQUENTIALLY = ''pressSequentially''"
| "actionName SELECT = ''select''"
| "actionName CHECK = ''check''"
| "actionName UNCHECK = ''uncheck''"
| "actionName FOCUS = ''focus''"
| "actionName BLUR = ''blur''"
| "actionName SCROLL = ''scroll''"
| "actionName SCROLL_INTO_VIEW = ''scrollIntoView''"
| "actionName WAIT_FOR = ''waitFor''"
| "actionName NAVIGATE = ''navigate''"
| "actionName GO_BACK = ''goBack''"
| "actionName GO_FORWARD = ''goForward''"
| "actionName RELOAD = ''reload''"

definition isNavigationAction :: "InteractionAction \<Rightarrow> bool" where
  "isNavigationAction a \<longleftrightarrow> a = NAVIGATE \<or> a = GO_BACK \<or> a = GO_FORWARD \<or> a = RELOAD"

text \<open>
  The handler's state: whether its page is set and open, and the marker map.
\<close>

record PageSoMHandler =
  pageLive :: bool
  somMap :: "string \<rightharpoonup> SomElement"

text \<open>
  The browser driver is the environment.  Its operations are given by their outcomes:
  a navigation or a percentage-coordinate action returns or throws (\<open>Some\<close> the
  message); an attempt on one selector and the coordinate fallback, with the recovery
  heuristics inside them, return a result.  The conversion of a coordinate to text
  belongs to the language and is a parameter too.
\<close>

record Driver =
  navigationThrows :: "SomCommand \<Rightarrow> string option"
  percentageCoordinateThrows :: "SomCommand \<Rightarrow> string option"
  tryExecuteAction :: "TypedSelector \<Rightarrow> SomCommand \<Rightarrow> SomElement \<Rightarrow> SemanticCommandResult"
  executeCoordinateAction :: "SomCommand \<Rightarrow> SomElement \<Rightarrow> SemanticCommandResult"
  filterRelevantMutations :: "string list"
  numberToString :: "rat \<Rightarrow> string"

text \<open>What \<open>runCommand\<close> asks of the driver, in order.\<close>

datatype driver_call =
    NavigationCall InteractionAction
  | PercentageCoordinateCall SomCommand
  | MutationObserverSetup
  | SelectorAttempt TypedSelector SomCommand
  | CoordinateActionCall SomCommand

definition failureResult :: "CommandAttempt list \<Rightarrow> string \<Rightarrow> SemanticCommandResult" where
  "failureResult attempts msg =
     \<lparr> failedAttempts = attempts, successAttempt = None, error = Some msg, status = FAILURE,
       mutations = None \<rparr>"

definition successResult :: "string \<Rightarrow> SemanticCommandResult" where
  "successResult cmd =
     \<lparr> failedAttempts = [],
       successAttempt = Some \<lparr> command = Some cmd, attemptStatus = SUCCESS, attemptError = None \<rparr>,
       error = None, status = SUCCESS, mutations = None \<rparr>"

definition failedAttempt :: "string \<Rightarrow> string \<Rightarrow> CommandAttempt" where
  "failedAttempt cmd msg = \<lparr> command = Some cmd, attemptStatus = FAILURE, attemptError = Some msg \<rparr>"

definition runNavigation ::
  "Driver \<Rightarrow> SomCommand \<Rightarrow> SemanticCommandResult \<times> driver_call list" where
  "runNavigation drv cmd =
     (if action cmd = NAVIGATE \<and> \<not> truthy (val cmd)
      then (failureResult
              [failedAttempt (''Navigation action: '' @ actionName (action cmd))
                 ''NAVIGATE action requires URL in value field'']
              ''NAVIGATE action requires URL in value field'', [])
      else
        (case navigationThrows drv cmd of
           Some msg \<Rightarrow>
             (failureResult
                [failedAttempt (''Navigation action: '' @ actionName (action cmd)) msg] msg,
              [NavigationCall (action cmd)])
         | None \<Rightarrow>
             (successResult
                (if action cmd = NAVIGATE
                 then ''await page.goto('' @ [CHR 0x27] @ orEmpty (val cmd) @ [CHR 0x27] @ '')''
                 else if action cmd = GO_BACK then ''await page.goBack()''
                 else if action cmd = GO_FORWARD then ''await page.goForward()''
                 else ''await page.reload()''),
              [NavigationCall (action cmd)])))"

definition coordinateText :: "Driver \<Rightarrow> SomCommand \<Rightarrow> Coordinate \<Rightarrow> string" where
  "coordinateText drv cmd c =
     ''Coordinate action: '' @ actionName (action cmd) @ '' at (''
       @ numberToString drv (coord_x c) @ ''%, '' @ numberToString drv (coord_y c) @ ''%)''"

definition runPercentageCoordinate ::
  "Driver \<Rightarrow> SomCommand \<Rightarrow> Coordinate \<Rightarrow> SemanticCommandResult \<times> driver_call list" where
  "runPercentageCoordinate drv cmd c =
     (case percentageCoordinateThrows drv cmd of
        Some msg \<Rightarrow>
          (failureResult [failedAttempt (coordinateText drv cmd c) msg] msg,
           [PercentageCoordinateCall cmd])
      | None \<Rightarrow> (successResult (coordinateText drv cmd c), [PercentageCoordinateCall cmd]))"

text \<open>Click and hover actions on a pseudo-element descriptor are forced.\<close>

definition modifiedCommand :: "SomElement \<Rightarrow> SomCommand \<Rightarrow> SomCommand" where
  "modifiedCommand element cmd =
     (if hasVisiblePseudoElement element
         \<and> (action cmd = CLICK \<or> action cmd = DOUBLE_CLICK \<or> action cmd = RIGHT_CLICK
              \<or> action cmd = HOVER)
      then cmd\<lparr>force := True\<rparr> else cmd)"

text \<open>
  The loop over the semantic selectors: \<open>Inl\<close> the result of the first selector that
  succeeds, or \<open>Inr\<close> the failed attempts gathered, with the driver calls made.
\<close>

fun trySelectors ::
  "Driver \<Rightarrow> SomCommand \<Rightarrow> SomElement \<Rightarrow> TypedSelector list \<Rightarrow> CommandAttempt list
     \<Rightarrow> (SemanticCommandResult + CommandAttempt list) \<times> driver_call list" where
  "trySelectors drv cmd element [] failed = (Inr failed, [])"
| "trySelectors drv cmd element (selector # rest) failed =
     (let result = tryExecuteAction drv selector (modifiedCommand element cmd) element;
          call = SelectorAttempt selector (modifiedCommand element cmd)
      in if status result = SUCCESS
         then (Inl (if action cmd = HOVER \<or> action cmd = FOCUS
                    then result\<lparr>mutations := Some (filterRelevantMutations drv)\<rparr>
                    else result),
               [call])
         else (case trySelectors drv cmd element rest (failed @ failedAttempts result) of
                 (r, calls) \<Rightarrow> (r, call # calls)))"

definition coordinateFallback ::
  "Driver \<Rightarrow> SomCommand \<Rightarrow> SomElement \<Rightarrow> CommandAttempt list \<Rightarrow> SemanticCommandResult" where
  "coordinateFallback drv cmd element failed =
     (let coordResult = executeCoordinateAction drv cmd element
      in if status coordResult = SUCCESS then coordResult\<lparr>failedAttempts := failed\<rparr>
         else if length failed > 0
         then coordResult\<lparr>failedAttempts := failed @ failedAttempts coordResult\<rparr>
         else coordResult)"

definition runCommand ::
  "PageSoMHandler \<Rightarrow> Driver \<Rightarrow> SomCommand \<Rightarrow> bool
     \<Rightarrow> (js_error + SemanticCommandResult) \<times> driver_call list" where
  "runCommand h drv cmd useSomIdBasedCommands =
     (if \<not> pageLive h then (Inl (Error ''Cannot run command: page is null or closed''), [])
      else if action cmd = NAVIGATE \<or> action cmd = GO_BACK \<or> action cmd = GO_FORWARD
              \<or> action cmd = RELOAD
      then (case runNavigation drv cmd of (r, calls) \<Rightarrow> (Inr r, calls))
      else if coord cmd \<noteq> None \<and> \<not> truthy (elementRef cmd)
      then (case runPercentageCoordinate drv cmd (the (coord cmd)) of (r, calls) \<Rightarrow> (Inr r, calls))
      else if \<not> truthy (elementRef cmd)
      then (Inr (failureResult [] ''Command must have either elementRef or coord specified''), [])
      else
        (case somMap h (orEmpty (elementRef cmd)) of
           None \<Rightarrow>
             (Inr (failureResult []
                (''Element with SoM ID '' @ [CHR 0x22] @ orEmpty (elementRef cmd) @ [CHR 0x22]
                   @ '' not found in map'')), [])
         | Some element \<Rightarrow>
             (let observe = (if action cmd = HOVER \<or> action cmd = FOCUS
                             then [MutationObserverSetup] else []);
                  somIdSelector =
                    TypedSelector T_locator
                      (''[tc-som-id='' @ [CHR 0x22] @ orEmpty (elementRef cmd) @ [CHR 0x22] @ '']'')
                      None None;
                  somResult = tryExecuteAction drv somIdSelector (modifiedCommand element cmd) element;
                  somCall = SelectorAttempt somIdSelector (modifiedCommand element cmd)
              in if status somResult = SUCCESS
                 then (Inr somResult, observe @ [somCall])
                 else
                   (let failed = failedAttempts somResult;
                        selectors = (if useSomIdBasedCommands then []
                                     else take 7 (generateSemanticSelectors element))
                    in case trySelectors drv cmd element selectors failed of
                         (Inl result, calls) \<Rightarrow> (Inr result, observe @ [somCall] @ calls)
                       | (Inr failed', calls) \<Rightarrow>
                           (Inr (coordinateFallback drv cmd element failed'),
                            observe @ [somCall] @ calls @ [CoordinateActionCall cmd])))))"

section \<open>Annotator: updateSom (som-handler.ts)\<close>

text \<open>
  What the in-page script reads from one candidate element: its identity, its bounding
  rectangle, its computed style, whether a \<open>::before\<close> or \<open>::after\<close> pseudo-element shows
  content (content other than \<open>none\<close>, visibility \<open>visible\<close>, display other than
  \<open>none\<close>), the five signs of a disabled element, and the descriptor fields the capture
  code reads from it (\<open>captured\<close>: tag, role, text, labels, rounded bounding box, parent
  summary), to which the marker id and the pseudo-element flag are added.
\<close>

record DomElement =
  node :: nat
  rectLeft :: rat
  rectTop :: rat
  rectWidth :: rat
  rectHeight :: rat
  displayNone :: bool
  visibilityHidden :: bool
  opacityZero :: bool
  beforeShown :: bool
  afterShown :: bool
  disabledProperty :: bool
  disabledAttribute :: bool
  ariaDisabled :: bool
  dataDisabled :: bool
  disabledClass :: bool
  captured :: SomElement

text \<open>
  The page at the time of the script: \<open>interactive\<close> is the content of the set
  \<open>topLevelInteractive\<close> in insertion order, that is, the candidates that the discovery
  stages before the filter leave, in discovery order; \<open>elementFromPoint\<close> and
  \<open>contains\<close> are the DOM's; \<open>markerAttr\<close> is the \<open>tc-som-id\<close> attribute of each
  node.  The three \<open>Throws\<close> fields say whether the removal of the coordinate marker,
  the script and the drawing of the overlay throw.
\<close>

record Page =
  interactive :: "DomElement list"
  innerWidth :: rat
  innerHeight :: rat
  elementFromPoint :: "rat \<Rightarrow> rat \<Rightarrow> nat option"
  contains :: "nat \<Rightarrow> nat \<Rightarrow> bool"
  markerAttr :: "nat \<rightharpoonup> string"
  removeMarkerThrows :: "js_error option"
  evaluateThrows :: "js_error option"
  drawThrows :: "js_error option"

definition rectRight :: "DomElement \<Rightarrow> rat" where
  "rectRight el = rectLeft el + rectWidth el"

definition rectBottom :: "DomElement \<Rightarrow> rat" where
  "rectBottom el = rectTop el + rectHeight el"

definition hasVisiblePseudo :: "DomElement \<Rightarrow> bool" where
  "hasVisiblePseudo el =
     (if visibilityHidden el \<or> opacityZero el then beforeShown el \<or> afterShown el else False)"

definition isHidden :: "DomElement \<Rightarrow> bool" where
  "isHidden el \<longleftrightarrow> displayNone el \<or> (visibilityHidden el \<and> opacityZero el)"

definition isDisabled :: "DomElement \<Rightarrow> bool" where
  "isDisabled el \<longleftrightarrow>
     disabledProperty el \<or> disabledAttribute el \<or> ariaDisabled el \<or> dataDisabled el
     \<or> disabledClass el"

text \<open>The five sample points: the centre and the four corners, inset.\<close>

definition testPoints :: "DomElement \<Rightarrow> (rat \<times> rat) list" where
  "testPoints el =
     (let centerX = rectLeft el + rectWidth el / 2;
          centerY = rectTop el + rectHeight el / 2;
          inset = max 1 (min (rectWidth el) (rectHeight el) * (1 / 10))
      in [(centerX, centerY),
          (rectLeft el + inset, rectTop el + inset),
          (rectRight el - inset, rectTop el + inset),
          (rectLeft el + inset, rectBottom el - inset),
          (rectRight el - inset, rectBottom el - inset)])"

definition isInViewport :: "Page \<Rightarrow> DomElement \<Rightarrow> bool" where
  "isInViewport pg el \<longleftrightarrow>
     rectTop el < innerHeight pg \<and> rectBottom el > 0
     \<and> rectLeft el < innerWidth pg \<and> rectRight el > 0"

text \<open>A sample point counts when the top element there is the element or related to it.\<close>

definition visibleAt :: "Page \<Rightarrow> DomElement \<Rightarrow> rat \<times> rat \<Rightarrow> bool" where
  "visibleAt pg el p =
     (case elementFromPoint pg (fst p) (snd p) of
        None \<Rightarrow> False
      | Some topEl \<Rightarrow> topEl = node el \<or> contains pg (node el) topEl \<or> contains pg topEl (node el))"

definition visiblePoints :: "Page \<Rightarrow> DomElement \<Rightarrow> nat" where
  "visiblePoints pg el = length (filter (visibleAt pg el) (testPoints el))"

text \<open>
  The body of the filter loop up to the assignment of the id: \<open>False\<close> is one of its
  early returns, \<open>True\<close> is reaching the assignment.
\<close>

definition marks :: "Page \<Rightarrow> bool \<Rightarrow> bool \<Rightarrow> DomElement \<Rightarrow> bool" where
  "marks pg includeOffscreen includeDisabled el =
     (if rectWidth el = 0 \<or> rectHeight el = 0 then False
      else if isHidden el \<and> \<not> hasVisiblePseudo el then False
      else if isDisabled el \<and> \<not> includeDisabled then False
      else if \<not> includeOffscreen \<and> isInViewport pg el
      then (if visiblePoints pg el < 1 then False else True)
      else if includeOffscreen \<and> \<not> isInViewport pg el then True
      else if \<not> includeOffscreen \<and> \<not> isInViewport pg el then False
      else True)"

definition capture :: "DomElement \<Rightarrow> string \<Rightarrow> SomElement" where
  "capture el newId =
     (captured el)\<lparr> somId := newId, hasVisiblePseudoElement := hasVisiblePseudo el \<rparr>"

text \<open>
  The loop over the candidates with its counter: the marked elements with their
  descriptors, in order.
\<close>

fun annotate ::
  "Page \<Rightarrow> bool \<Rightarrow> bool \<Rightarrow> DomElement list \<Rightarrow> nat \<Rightarrow> (DomElement \<times> SomElement) list" where
  "annotate pg includeOffscreen includeDisabled [] idCounter = []"
| "annotate pg includeOffscreen includeDisabled (el # els) idCounter =
     (if marks pg includeOffscreen includeDisabled el
      then (el, capture el (showNat idCounter))
             # annotate pg includeOffscreen includeDisabled els (idCounter + 1)
      else annotate pg includeOffscreen includeDisabled els idCounter)"

definition setAll :: "('k \<rightharpoonup> 'v) \<Rightarrow> ('k \<times> 'v) list \<Rightarrow> ('k \<rightharpoonup> 'v)" where
  "setAll m kvs = foldl (\<lambda>acc kv. acc(fst kv \<mapsto> snd kv)) m kvs"


text \<open>The candidates that receive a marker, in discovery order.\<close>

definition markedElements :: "Page \<Rightarrow> bool \<Rightarrow> bool \<Rightarrow> DomElement list" where
  "markedElements pg includeOffscreen includeDisabled =
     map fst (annotate pg includeOffscreen includeDisabled (interactive pg) 1)"

section \<open>Orchestrator (index.ts)\<close>

subsection \<open>Configuration, errors and waits\<close>

text \<open>
  The retry limit and the timeouts are read from the environment once per call; the
  conversion of a number to text and \<open>JSON.stringify\<close> belong to the language and are
  parameters.
\<close>

record Config =
  waitRetryLimit :: nat
  navigationTimeout :: nat
  commandTimeout :: nat
  renderNumber :: "number \<Rightarrow> string"
  jsonStringify :: "CommandAttempt list \<Rightarrow> string"

definition DEFAULT_WAIT_RETRY_LIMIT :: nat where
  "DEFAULT_WAIT_RETRY_LIMIT = 2"

definition DEFAULT_CONFIDENCE_THRESHOLD :: int where
  "DEFAULT_CONFIDENCE_THRESHOLD = 70"

text \<open>\<open>getMaxWaitRetries\<close>, from the value of the environment variable.\<close>

definition getMaxWaitRetries :: "string option \<Rightarrow> nat" where
  "getMaxWaitRetries raw =
     (if \<not> truthy (map_option trim raw) then DEFAULT_WAIT_RETRY_LIMIT
      else (case Number (trim (orEmpty raw)) of
              Num q \<Rightarrow> if 0 \<le> q then nat \<lfloor>q\<rfloor> else DEFAULT_WAIT_RETRY_LIMIT
            | _ \<Rightarrow> DEFAULT_WAIT_RETRY_LIMIT))"

definition isNavigationError :: "js_error \<Rightarrow> bool" where
  "isNavigationError e \<longleftrightarrow>
     message e \<noteq> []
     \<and> list_ex (\<lambda>pattern. strIncludes (message e) pattern)
          [''Execution context was destroyed'',
           ''Target closed'',
           ''Navigation failed because page crashed'',
           ''Navigation failed because browser has disconnected'',
           ''Most likely the page has been closed'']"

fun mathMax :: "number \<Rightarrow> number \<Rightarrow> number" where
  "mathMax NaN b = NaN"
| "mathMax a NaN = NaN"
| "mathMax PosInfinity b = PosInfinity"
| "mathMax a PosInfinity = PosInfinity"
| "mathMax NegInfinity b = b"
| "mathMax a NegInfinity = a"
| "mathMax (Num a) (Num b) = Num (max a b)"

fun mathMin :: "number \<Rightarrow> number \<Rightarrow> number" where
  "mathMin NaN b = NaN"
| "mathMin a NaN = NaN"
| "mathMin NegInfinity b = NegInfinity"
| "mathMin a NegInfinity = NegInfinity"
| "mathMin PosInfinity b = b"
| "mathMin a PosInfinity = a"
| "mathMin (Num a) (Num b) = Num (min a b)"

fun times1000 :: "number \<Rightarrow> number" where
  "times1000 (Num q) = toDouble (q * 1000)"
| "times1000 n = n"

definition clampWaitDuration :: "number option \<Rightarrow> number" where
  "clampWaitDuration seconds =
     (let ms = (case seconds of Some s \<Rightarrow> times1000 s | None \<Rightarrow> Num 5000)
      in mathMin (mathMax ms (Num 5000)) (Num 30000))"

definition waitDuration :: "SomCommand \<Rightarrow> number" where
  "waitDuration cmd =
     clampWaitDuration
       (case durationSeconds cmd of
          Some d \<Rightarrow> Some d
        | None \<Rightarrow> if truthy (val cmd) then Some (Number (orEmpty (val cmd))) else None)"

subsection \<open>The environment of one call\<close>

text \<open>
  One attempt of \<open>stabilizeForLlm\<close>: the waits before \<open>prepare\<close> throw (which
  propagates), or \<open>prepare\<close> throws, or it returns.
\<close>

datatype attempt = AttemptOk | WaitThrows js_error | PrepareThrows js_error

text \<open>What \<open>runCommand\<close> does within \<open>executeSomCommand\<close>'s race with the timer.\<close>

datatype run_outcome = RunReturned SemanticCommandResult | RunThrew js_error | RunTimedOut

text \<open>
  The outcomes, in call order, of the driver calls of one round after the oracle has
  answered: \<open>voids\<close> for the calls that return nothing (the timed pause, the page
  stabilization, \<open>updateSom\<close>), \<open>Some\<close> the error when one throws; \<open>runs\<close> for the
  commands executed.
\<close>

record script =
  voids :: "js_error option list"
  runs :: "run_outcome list"

record round =
  stabilization :: "attempt list"
  llm :: "js_error + AiActionResult"
  io :: script

definition popVoid :: "script \<Rightarrow> (js_error option \<times> script) option" where
  "popVoid s = (case voids s of [] \<Rightarrow> None | v # vs \<Rightarrow> Some (v, s\<lparr>voids := vs\<rparr>))"

definition popRun :: "script \<Rightarrow> (run_outcome \<times> script) option" where
  "popRun s = (case runs s of [] \<Rightarrow> None | r # rs \<Rightarrow> Some (r, s\<lparr>runs := rs\<rparr>))"

subsection \<open>stabilizeForLlm\<close>

text \<open>
  The result is \<open>None\<close> when the environment's script ends before the function does,
  else the error thrown or the wait count returned.
\<close>

fun stabilizeForLlm :: "string \<Rightarrow> nat \<Rightarrow> nat \<Rightarrow> attempt list \<Rightarrow> (js_error + nat) option" where
  "stabilizeForLlm description attemptsUsed limit [] = None"
| "stabilizeForLlm description attemptsUsed limit (a # rest) =
     (case a of
        WaitThrows e \<Rightarrow> Some (Inl e)
      | AttemptOk \<Rightarrow> Some (Inr attemptsUsed)
      | PrepareThrows e \<Rightarrow>
          if isNavigationError e
          then (if attemptsUsed + 1 > limit
                then Some (Inl (Error (''Navigation continued interrupting '' @ description
                                @ '' beyond retry limit ('' @ showNat limit @ '').'')))
                else stabilizeForLlm description (attemptsUsed + 1) limit rest)
          else Some (Inl e))"

subsection \<open>executeSomCommand\<close>

definition createTimeoutFailure :: "SomCommand \<Rightarrow> string \<Rightarrow> SemanticCommandResult" where
  "createTimeoutFailure cmd msg =
     failureResult [failedAttempt (actionName (action cmd)) msg] msg"

definition executeSomCommand ::
  "SomCommand \<Rightarrow> nat \<Rightarrow> run_outcome \<Rightarrow> js_error + SemanticCommandResult" where
  "executeSomCommand cmd timeoutMs outcome =
     (case outcome of
        RunTimedOut \<Rightarrow>
          Inr (createTimeoutFailure cmd (''Command timed out after '' @ showNat timeoutMs @ ''ms''))
      | RunReturned result \<Rightarrow> Inr result
      | RunThrew e \<Rightarrow>
          (case e of
             SomReannotationRequiredError m \<Rightarrow> Inl e
           | _ \<Rightarrow>
               if isNavigationError e then Inl (NavigationInProgressError (message e))
               else Inr (failureResult [failedAttempt (actionName (action cmd)) (message e)]
                           (message e))))"

definition commandTimeoutFor :: "Config \<Rightarrow> SomCommand \<Rightarrow> nat" where
  "commandTimeoutFor cfg cmd =
     (if isNavigationAction (action cmd) then navigationTimeout cfg else commandTimeout cfg)"

subsection \<open>Failure messages\<close>

definition normalizeAttempt :: "CommandAttempt \<Rightarrow> CommandAttempt" where
  "normalizeAttempt a =
     \<lparr> command = Some (if truthy (command a) then orEmpty (command a) else ''unknown''),
       attemptStatus = attemptStatus a,
       attemptError = (if truthy (attemptError a) then attemptError a else None) \<rparr>"

definition formatFailedAttemptsLine :: "Config \<Rightarrow> CommandAttempt list \<Rightarrow> string option" where
  "formatFailedAttemptsLine cfg attempts =
     (if length attempts = 0 then None
      else Some (''Attempts: '' @ jsonStringify cfg (map normalizeAttempt attempts)))"

fun joinLines :: "string list \<Rightarrow> string" where
  "joinLines [] = []"
| "joinLines [l] = l"
| "joinLines (l # ls) = l @ [CHR 0x0A] @ joinLines ls"

definition failureMessage ::
  "Config \<Rightarrow> string \<Rightarrow> string option \<Rightarrow> CommandAttempt list \<Rightarrow> string \<Rightarrow> string" where
  "failureMessage cfg headline lastError attempts fallback =
     (let text = joinLines
            (filter (\<lambda>l. l \<noteq> [])
               [headline,
                (if truthy lastError then ''Last error: '' @ orEmpty lastError else []),
                orEmpty (formatFailedAttemptsLine cfg attempts)])
      in if text \<noteq> [] then text else fallback)"

subsection \<open>act()\<close>

record AiActResult =
  command_results :: "SemanticCommandResult list"
  actStatus :: CommandRunStatus
  actError :: "string option"

text \<open>
  The variables of the loop, and \<open>dispatched\<close>: the commands handed to
  \<open>executeSomCommand\<close> so far in this call, in order.
\<close>

record act_state =
  waitCount :: nat
  preActionRetryCount :: nat
  aggregateResults :: "SemanticCommandResult list"
  dispatched :: "SomCommand list"

text \<open>How one round ends: the loop continues, or the call returns or throws.\<close>

datatype step =
    Continue act_state
  | Return AiActResult act_state
  | Throw js_error act_state

definition bumpWait :: "Config \<Rightarrow> act_state \<Rightarrow> act_state" where
  "bumpWait cfg st =
     st\<lparr> waitCount := min (waitCount st + 1) (waitRetryLimit cfg), preActionRetryCount := 0 \<rparr>"

text \<open>
  \<open>try { await waitForPageStability(...); await updateSom(false) } catch ...\<close>: \<open>Inl\<close>
  the error caught, \<open>Inr\<close> when both calls return.
\<close>

definition stabilizeAndAnnotate :: "script \<Rightarrow> ((js_error + unit) \<times> script) option" where
  "stabilizeAndAnnotate s =
     (case popVoid s of
        None \<Rightarrow> None
      | Some (Some e, s1) \<Rightarrow> Some (Inl e, s1)
      | Some (None, s1) \<Rightarrow>
          (case popVoid s1 of
             None \<Rightarrow> None
           | Some (Some e, s2) \<Rightarrow> Some (Inl e, s2)
           | Some (None, s2) \<Rightarrow> Some (Inr (), s2)))"

definition refreshBranch :: "Config \<Rightarrow> act_state \<Rightarrow> script \<Rightarrow> step option" where
  "refreshBranch cfg st s =
     (case stabilizeAndAnnotate s of
        None \<Rightarrow> None
      | Some (Inl e, s') \<Rightarrow>
          if isNavigationError e then Some (Continue (bumpWait cfg st)) else Some (Throw e st)
      | Some (Inr _, s') \<Rightarrow> Some (Continue (bumpWait cfg st)))"

text \<open>
  The loop over the pre-commands: \<open>Inl\<close> the error thrown, \<open>Inr\<close> when all succeeded.
\<close>

fun runPreCommands ::
  "Config \<Rightarrow> string \<Rightarrow> SomCommand list \<Rightarrow> act_state \<Rightarrow> script
     \<Rightarrow> ((js_error + unit) \<times> act_state \<times> script) option" where
  "runPreCommands cfg objective [] st s = Some (Inr (), st, s)"
| "runPreCommands cfg objective (cmd # cmds) st s =
     (if action cmd = WAIT_FOR
      then
        (case popVoid s of
           None \<Rightarrow> None
         | Some (Some e, s1) \<Rightarrow> Some (Inl e, st, s1)
         | Some (None, s1) \<Rightarrow>
             runPreCommands cfg objective cmds
               (st\<lparr>aggregateResults := aggregateResults st @
                     [successResult (''await page.waitForTimeout(''
                        @ renderNumber cfg (waitDuration cmd) @ '')'')]\<rparr>)
               s1)
      else
        (case popRun s of
           None \<Rightarrow> None
         | Some (outcome, s1) \<Rightarrow>
             (let st1 = st\<lparr>dispatched := dispatched st @ [cmd]\<rparr>
              in case executeSomCommand cmd (commandTimeoutFor cfg cmd) outcome of
                   Inl e \<Rightarrow> Some (Inl e, st1, s1)
                 | Inr result \<Rightarrow>
                     (let st2 = st1\<lparr>aggregateResults := aggregateResults st1 @ [result]\<rparr>
                      in if status result = FAILURE
                         then Some (Inl (Error
                                (failureMessage cfg
                                   (''AI action failed during pre-commands for objective: ''
                                      @ objective)
                                   (error result) (failedAttempts result)
                                   ''Pre-action command failed.'')), st2, s1)
                         else runPreCommands cfg objective cmds st2 s1))))"

text \<open>
  The pre-command stage with the stabilization and annotation that follow it: \<open>Inl\<close> a
  step that ends the round, \<open>Inr\<close> to go on within the round.
\<close>

definition preCommandStage ::
  "Config \<Rightarrow> string \<Rightarrow> SomCommand list \<Rightarrow> act_state \<Rightarrow> script
     \<Rightarrow> (step + act_state \<times> script) option" where
  "preCommandStage cfg objective cmds st s =
     (if length cmds > 0
      then
        (case runPreCommands cfg objective cmds st s of
           None \<Rightarrow> None
         | Some (Inl e, st1, s1) \<Rightarrow> Some (Inl (Throw e st1))
         | Some (Inr _, st1, s1) \<Rightarrow>
             (case popVoid s1 of
                None \<Rightarrow> None
              | Some (Some e, s2) \<Rightarrow> Some (Inl (Throw e st1))
              | Some (None, s2) \<Rightarrow>
                  (case popVoid s2 of
                     None \<Rightarrow> None
                   | Some (Some e, s3) \<Rightarrow>
                       if isNavigationError e then Some (Inl (Continue (bumpWait cfg st1)))
                       else Some (Inl (Throw e st1))
                   | Some (None, s3) \<Rightarrow> Some (Inr (st1, s3)))))
      else Some (Inr (st, s)))"

text \<open>
  The loop over the wait-type commands: \<open>Inl\<close> the error thrown, \<open>Inr True\<close> when a
  navigation interrupted the annotation, \<open>Inr False\<close> when all waits are done.
\<close>

fun runWaitCommands ::
  "SomCommand list \<Rightarrow> script \<Rightarrow> ((js_error + bool) \<times> script) option" where
  "runWaitCommands [] s = Some (Inr False, s)"
| "runWaitCommands (cmd # cmds) s =
     (case popVoid s of
        None \<Rightarrow> None
      | Some (Some e, s1) \<Rightarrow> Some (Inl e, s1)
      | Some (None, s1) \<Rightarrow>
          (case popVoid s1 of
             None \<Rightarrow> None
           | Some (Some e, s2) \<Rightarrow> Some (Inl e, s2)
           | Some (None, s2) \<Rightarrow>
               (case popVoid s2 of
                  None \<Rightarrow> None
                | Some (Some e, s3) \<Rightarrow>
                    if isNavigationError e then Some (Inr True, s3) else Some (Inl e, s3)
                | Some (None, s3) \<Rightarrow> runWaitCommands cmds s3)))"

text \<open>How the loop over the action commands ends.\<close>

datatype loop_end =
    AllDone
  | CommandFailed "string option"
  | RetryRound
  | Thrown js_error

fun runActionCommands ::
  "Config \<Rightarrow> SomCommand list \<Rightarrow> act_state \<Rightarrow> script \<Rightarrow> (loop_end \<times> act_state) option" where
  "runActionCommands cfg [] st s = Some (AllDone, st)"
| "runActionCommands cfg (cmd # cmds) st s =
     (case popRun s of
        None \<Rightarrow> None
      | Some (outcome, s1) \<Rightarrow>
          (let st1 = st\<lparr>dispatched := dispatched st @ [cmd]\<rparr>
           in case executeSomCommand cmd (commandTimeoutFor cfg cmd) outcome of
                Inl e \<Rightarrow>
                  (case e of
                     SomReannotationRequiredError m \<Rightarrow> Some (RetryRound, st1)
                   | NavigationInProgressError m \<Rightarrow> Some (RetryRound, st1)
                   | Error m \<Rightarrow>
                       if isNavigationError e then Some (RetryRound, st1)
                       else Some (Thrown e, st1))
              | Inr result \<Rightarrow>
                  (let st2 = st1\<lparr>aggregateResults := aggregateResults st1 @ [result]\<rparr>
                   in case stabilizeAndAnnotate s1 of
                        None \<Rightarrow> None
                      | Some (Inl e, s2) \<Rightarrow>
                          if isNavigationError e then Some (RetryRound, st2)
                          else Some (Thrown e, st2)
                      | Some (Inr _, s2) \<Rightarrow>
                          if status result = FAILURE
                          then Some (CommandFailed (error result), st2)
                          else runActionCommands cfg cmds st2 s2)))"

definition last_failedAttempts :: "SemanticCommandResult list \<Rightarrow> CommandAttempt list" where
  "last_failedAttempts results = (if results = [] then [] else failedAttempts (last results))"

text \<open>The round from the partition of the main commands on.\<close>

definition commandStage ::
  "Config \<Rightarrow> string \<Rightarrow> SomCommand list \<Rightarrow> act_state \<Rightarrow> script \<Rightarrow> step option" where
  "commandStage cfg objective cmds st s =
     (let waitCommands = filter (\<lambda>c. action c = WAIT_FOR) cmds;
          actionCommands = filter (\<lambda>c. action c \<noteq> WAIT_FOR) cmds
      in case runWaitCommands waitCommands s of
           None \<Rightarrow> None
         | Some (Inl e, s1) \<Rightarrow> Some (Throw e st)
         | Some (Inr True, s1) \<Rightarrow> Some (Continue (bumpWait cfg (st\<lparr>aggregateResults := []\<rparr>)))
         | Some (Inr False, s1) \<Rightarrow>
             (case runActionCommands cfg actionCommands st s1 of
                None \<Rightarrow> None
              | Some (Thrown e, st1) \<Rightarrow> Some (Throw e st1)
              | Some (RetryRound, st1) \<Rightarrow>
                  Some (Continue (bumpWait cfg (st1\<lparr>aggregateResults := []\<rparr>)))
              | Some (CommandFailed lastError, st1) \<Rightarrow>
                  Some (Throw (Error
                          (failureMessage cfg (''AI action failed for objective: '' @ objective)
                             lastError (last_failedAttempts (aggregateResults st1))
                             ''AI action failed with unknown error.'')) st1)
              | Some (AllDone, st1) \<Rightarrow>
                  Some (Return \<lparr> command_results = aggregateResults st1, actStatus = SUCCESS,
                                 actError = None \<rparr> st1)))"

text \<open>One round of the loop of \<open>act\<close>, from the stabilization to its \<open>continue\<close>,
  \<open>return\<close> or \<open>throw\<close>.\<close>

definition actRound :: "Config \<Rightarrow> string \<Rightarrow> act_state \<Rightarrow> round \<Rightarrow> step option" where
  "actRound cfg objective st r =
     (case stabilizeForLlm (''ai.act objective: '' @ objective) (waitCount st)
             (waitRetryLimit cfg) (stabilization r) of
        None \<Rightarrow> None
      | Some (Inl e) \<Rightarrow> Some (Throw e st)
      | Some (Inr wc) \<Rightarrow>
          (let st = st\<lparr>waitCount := wc\<rparr>
           in case llm r of
                Inl e \<Rightarrow> Some (Throw e st)
              | Inr aiResult \<Rightarrow>
                  if shouldWait aiResult
                  then (if waitCount st \<ge> waitRetryLimit cfg
                        then Some (Throw (Error (''LLM requested wait beyond max attempts (''
                                     @ showNat (waitRetryLimit cfg) @ '').'')) st)
                        else Some (Continue (st\<lparr>waitCount := waitCount st + 1\<rparr>)))
                  else if stepCompleted aiResult
                  then Some (Return \<lparr> command_results = aggregateResults st, actStatus = SUCCESS,
                                      actError = None \<rparr> st)
                  else if requestSomRefresh aiResult
                  then refreshBranch cfg st (io r)
                  else
                    (case preCommandStage cfg objective
                            (case preCommands aiResult of None \<Rightarrow> [] | Some cs \<Rightarrow> cs) st (io r) of
                       None \<Rightarrow> None
                     | Some (Inl stp) \<Rightarrow> Some stp
                     | Some (Inr (st1, s1)) \<Rightarrow>
                         if needsRetryAfterPreActions aiResult
                         then (if preActionRetryCount st1 \<ge> waitRetryLimit cfg
                               then Some (Throw (Error
                                      (''LLM requested retry after pre-actions beyond max attempts (''
                                         @ showNat (waitRetryLimit cfg) @ '').'')) st1)
                               else Some (Continue (st1\<lparr> preActionRetryCount :=
                                                          preActionRetryCount st1 + 1,
                                                        waitCount := 0 \<rparr>)))
                         else
                           (let commands =
                                  (case commandsToRun aiResult of None \<Rightarrow> [] | Some cs \<Rightarrow> cs)
                            in if length commands = 0
                               then (if waitCount st1 \<ge> waitRetryLimit cfg
                                     then Some (Throw (Error
                                            (''LLM returned empty commands without allowed flags beyond max wait attempts (''
                                               @ showNat (waitRetryLimit cfg) @ '').'')) st1)
                                     else (case popVoid s1 of
                                             None \<Rightarrow> None
                                           | Some (Some e, s2) \<Rightarrow>
                                               Some (Throw e (st1\<lparr>waitCount := waitCount st1 + 1\<rparr>))
                                           | Some (None, s2) \<Rightarrow>
                                               Some (Continue (st1\<lparr>waitCount := waitCount st1 + 1\<rparr>))))
                               else commandStage cfg objective commands st1 s1))))"

datatype act_outcome = Returned AiActResult | Threw js_error

text \<open>
  The loop: one element of \<open>rounds\<close> per iteration.  \<open>None\<close> when the environment's script
  ends before the call does; else the outcome of the call with the commands it
  dispatched.
\<close>

fun actLoop ::
  "Config \<Rightarrow> string \<Rightarrow> act_state \<Rightarrow> round list \<Rightarrow> (act_outcome \<times> SomCommand list) option" where
  "actLoop cfg objective st [] = None"
| "actLoop cfg objective st (r # rs) =
     (case actRound cfg objective st r of
        None \<Rightarrow> None
      | Some (Continue st') \<Rightarrow> actLoop cfg objective st' rs
      | Some (Return response st') \<Rightarrow> Some (Returned response, dispatched st')
      | Some (Throw e st') \<Rightarrow> Some (Threw e, dispatched st'))"

definition initialState :: act_state where
  "initialState =
     \<lparr> waitCount = 0, preActionRetryCount = 0, aggregateResults = [], dispatched = [] \<rparr>"

definition act ::
  "Config \<Rightarrow> bool \<Rightarrow> string \<Rightarrow> round list \<Rightarrow> (act_outcome \<times> SomCommand list) option" where
  "act cfg hasPage objective rounds =
     (if \<not> hasPage then Some (Threw (Error ''act() requires a Playwright page instance.''), [])
      else actLoop cfg objective initialState rounds)"

text \<open>
  A round in which the first preparation succeeds and the oracle answers with
  \<open>shouldWait\<close> set.
\<close>

definition answersWait :: "round \<Rightarrow> bool" where
  "answersWait r \<longleftrightarrow>
     (case stabilization r of AttemptOk # _ \<Rightarrow> True | _ \<Rightarrow> False)
     \<and> (case llm r of Inr aiResult \<Rightarrow> shouldWait aiResult | Inl _ \<Rightarrow> False)"

subsection \<open>verify()\<close>

record VerifyResponse =
  respVerificationSuccess :: bool
  respConfidence :: int
  respVerificationReason :: "string option"

text \<open>
  \<open>extractVerification\<close>.  A \<open>verificationReason\<close> is a string in \<open>AiActionResult\<close>, so the
  source's third check, which throws when one is present and is not a string, never
  fires here.
\<close>

definition extractVerification :: "AiActionResult \<Rightarrow> js_error + VerifyResponse" where
  "extractVerification result =
     (case verificationSuccess result of
        None \<Rightarrow> Inl (Error ''LLM response missing verificationSuccess field.'')
      | Some vs \<Rightarrow>
          (case confidence result of
             None \<Rightarrow> Inl (Error ''LLM response missing confidence field.'')
           | Some c \<Rightarrow>
               Inr \<lparr> respVerificationSuccess = vs, respConfidence = c,
                     respVerificationReason = verificationReason result \<rparr>))"

text \<open>
  The host framework's assertion function is the environment.  What matters of it here
  is what a failed assertion does: it throws the framework's assertion error, as an
  ordinary \<open>expect\<close> does, or it records the failure and returns, as a soft one does.
\<close>

datatype expect_fn = ThrowingExpect | SoftExpect

text \<open>One assertion handed to the host's function: its message and whether it holds.\<close>

record assertion =
  assertionMessage :: string
  holds :: bool

datatype verify_outcome =
    VerifyReturned VerifyResponse
  | AssertionFailure string
  | VerifyThrew js_error

text \<open>
  What a call of \<open>verify\<close> does: how it ends, the assertions it handed to the host's
  function, in order, and the number of oracle calls it made.
\<close>

record verify_result =
  outcome :: verify_outcome
  assertions :: "assertion list"
  oracleCalls :: nat

text \<open>The two assertions after the short-circuit, in the order of the source.\<close>

definition assertVerification ::
  "expect_fn \<Rightarrow> string \<Rightarrow> int \<Rightarrow> VerifyResponse \<Rightarrow> verify_outcome \<times> assertion list" where
  "assertVerification expectFn requirement threshold response =
     (let confidenceAssertion =
            \<lparr> assertionMessage =
                ''AI verification confidence '' @ showInt (respConfidence response)
                  @ '' is below threshold '' @ showInt threshold,
              holds = (respConfidence response \<ge> threshold) \<rparr>;
          successAssertion =
            \<lparr> assertionMessage =
                ''AI verification failed for requirement: '' @ requirement
                  @ (if truthy (respVerificationReason response)
                     then '' - '' @ orEmpty (respVerificationReason response) else []),
              holds = (respVerificationSuccess response = True) \<rparr>
      in if \<not> holds confidenceAssertion \<and> expectFn = ThrowingExpect
         then (AssertionFailure (assertionMessage confidenceAssertion), [confidenceAssertion])
         else if \<not> holds successAssertion \<and> expectFn = ThrowingExpect
         then (AssertionFailure (assertionMessage successAssertion),
               [confidenceAssertion, successAssertion])
         else (VerifyReturned response, [confidenceAssertion, successAssertion]))"

text \<open>
  The loop of \<open>verify\<close>: one element of \<open>rounds\<close> per iteration (only its stabilization
  and its oracle answer are used), \<open>waited\<close> the wait counter, \<open>calls\<close> the oracle
  calls made so far.  \<open>None\<close> when
  the environment's script ends before the call does.
\<close>

fun verifyLoop ::
  "Config \<Rightarrow> string \<Rightarrow> int option \<Rightarrow> expect_fn option \<Rightarrow> nat \<Rightarrow> nat \<Rightarrow> round list
     \<Rightarrow> verify_result option" where
  "verifyLoop cfg requirement confidence_threshold expectFn waited calls [] = None"
| "verifyLoop cfg requirement confidence_threshold expectFn waited calls (r # rs) =
     (case stabilizeForLlm (''ai.verify requirement: '' @ requirement) waited
             (waitRetryLimit cfg) (stabilization r) of
        None \<Rightarrow> None
      | Some (Inl e) \<Rightarrow> Some \<lparr> outcome = VerifyThrew e, assertions = [], oracleCalls = calls \<rparr>
      | Some (Inr wc) \<Rightarrow>
          (case llm r of
             Inl e \<Rightarrow>
               if isNavigationError e
               then (if min (wc + 1) (waitRetryLimit cfg) > waitRetryLimit cfg
                     then Some \<lparr> outcome = VerifyThrew (Error
                                   (''Navigation continued interrupting verification for ''
                                      @ [CHR 0x22] @ requirement @ [CHR 0x22]
                                      @ '' beyond retry limit ('' @ showNat (waitRetryLimit cfg)
                                      @ '').'')),
                                 assertions = [], oracleCalls = calls + 1 \<rparr>
                     else verifyLoop cfg requirement confidence_threshold expectFn
                            (min (wc + 1) (waitRetryLimit cfg)) (calls + 1) rs)
               else Some \<lparr> outcome = VerifyThrew e, assertions = [], oracleCalls = calls + 1 \<rparr>
           | Inr aiResult \<Rightarrow>
               if requestSomRefresh aiResult
               then verifyLoop cfg requirement confidence_threshold expectFn
                      (min (wc + 1) (waitRetryLimit cfg)) (calls + 1) rs
               else
                 (case extractVerification aiResult of
                    Inl e \<Rightarrow>
                      Some \<lparr> outcome = VerifyThrew e, assertions = [], oracleCalls = calls + 1 \<rparr>
                  | Inr response \<Rightarrow>
                      if stepCompleted aiResult \<or> respVerificationSuccess response
                      then Some \<lparr> outcome = VerifyReturned response, assertions = [],
                                  oracleCalls = calls + 1 \<rparr>
                      else
                        (let threshold =
                               max 0 (case confidence_threshold of
                                        None \<Rightarrow> DEFAULT_CONFIDENCE_THRESHOLD | Some t \<Rightarrow> t)
                         in case expectFn of
                              None \<Rightarrow>
                                Some \<lparr> outcome = VerifyThrew (Error
                                  ''verify() requires Playwright expect. Pass the Playwright test object or provide expect explicitly.''),
                                  assertions = [], oracleCalls = calls + 1 \<rparr>
                            | Some f \<Rightarrow>
                                (case assertVerification f requirement threshold response of
                                   (out, asserted) \<Rightarrow>
                                     Some \<lparr> outcome = out, assertions = asserted,
                                            oracleCalls = calls + 1 \<rparr>)))))"

definition verify ::
  "Config \<Rightarrow> bool \<Rightarrow> string \<Rightarrow> int option \<Rightarrow> expect_fn option \<Rightarrow> round list
     \<Rightarrow> verify_result option" where
  "verify cfg hasPage requirement confidence_threshold expectFn rounds =
     (if \<not> hasPage
      then Some \<lparr> outcome = VerifyThrew (Error ''verify() requires a Playwright page instance.''),
                  assertions = [], oracleCalls = 0 \<rparr>
      else verifyLoop cfg requirement confidence_threshold expectFn 0 0 rounds)"


text \<open>A round that prepares at once and in which the oracle answers \<open>aiResult\<close>.\<close>

definition answers :: "AiActionResult \<Rightarrow> round" where
  "answers aiResult =
     \<lparr> stabilization = [AttemptOk], llm = Inr aiResult, io = \<lparr> voids = [], runs = [] \<rparr> \<rparr>"

section \<open>Example inputs\<close>

definition saveButton :: SomElement where
  "saveButton =
     \<lparr> somId = ''3'', tag = ''button'', role = ''button'', elemText = ''Save'', ariaLabel = '''',
       labelText = '''', placeholder = '''', elemName = '''', elemType = ''submit'', elemId = ''save'',
       className = ''btn primary'',
       bbox = \<lparr> bbox_x = 10, bbox_y = 20, width = 100, height = 40 \<rparr>,
       hasVisiblePseudoElement = False, parent = None \<rparr>"

definition pseudoSubmit :: SomElement where
  "pseudoSubmit =
     saveButton\<lparr> hasVisiblePseudoElement := True,
       parent := Some \<lparr> parentTag = ''form'', parentRole = '''', parentClassName = ''login wide'',
                       parentText = ''Save'' \<rparr> \<rparr>"

definition cancelNode :: LiveNode where
  "cancelNode =
     \<lparr> nodeTagName = ''BUTTON'', nodeClassName = Some ''link'', nodeTextContent = Some '' Cancel '',
       nodeAriaLabel = None, nodeRect = \<lparr> bbox_x = 10, bbox_y = 80, width = 64, height = 20 \<rparr> \<rparr>"

definition saveNode :: LiveNode where
  "saveNode =
     \<lparr> nodeTagName = ''BUTTON'', nodeClassName = Some ''primary btn'', nodeTextContent = Some ''Save'',
       nodeAriaLabel = None, nodeRect = \<lparr> bbox_x = 10, bbox_y = 20, width = 100, height = 40 \<rparr> \<rparr>"

definition idleDriver :: Driver where
  "idleDriver =
     \<lparr> navigationThrows = (\<lambda>cmd. None),
       percentageCoordinateThrows = (\<lambda>cmd. None),
       tryExecuteAction = (\<lambda>selector cmd element. successResult ''await locator.click()''),
       executeCoordinateAction = (\<lambda>cmd element. successResult ''await page.mouse.click()''),
       filterRelevantMutations = [],
       numberToString = (\<lambda>q. ''0'') \<rparr>"

definition oneMarker :: PageSoMHandler where
  "oneMarker = \<lparr> pageLive = True, somMap = [''3'' \<mapsto> saveButton] \<rparr>"

definition clickNine :: SomCommand where
  "clickNine =
     \<lparr> elementRef = Some ''9'', action = CLICK, coord = None, val = None, force = False,
       durationSeconds = None \<rparr>"

definition plainElement :: "nat \<Rightarrow> rat \<Rightarrow> DomElement" where
  "plainElement n y =
     \<lparr> node = n, rectLeft = 10, rectTop = y, rectWidth = 100, rectHeight = 40,
       displayNone = False, visibilityHidden = False, opacityZero = False,
       beforeShown = False, afterShown = False,
       disabledProperty = False, disabledAttribute = False, ariaDisabled = False,
       dataDisabled = False, disabledClass = False, captured = saveButton \<rparr>"

definition coveredButton :: DomElement where
  "coveredButton = plainElement 1 10"

definition freeButton :: DomElement where
  "freeButton = plainElement 3 100"

definition belowFold :: DomElement where
  "belowFold = plainElement 4 900"

text \<open>
  A page of 800 by 600 pixels on which node 2, related to no candidate, lies on top of
  everything above \<open>y = 60\<close>, and node 3 is on top elsewhere.
\<close>

definition coveredPage :: Page where
  "coveredPage =
     \<lparr> interactive = [coveredButton, freeButton, belowFold],
       innerWidth = 800, innerHeight = 600,
       elementFromPoint = (\<lambda>px py. if py < 60 then Some 2 else Some 3),
       contains = (\<lambda>a b. False),
       markerAttr = Map.empty,
       removeMarkerThrows = None, evaluateThrows = None, drawThrows = None \<rparr>"

definition exampleConfig :: Config where
  "exampleConfig =
     \<lparr> waitRetryLimit = 2, navigationTimeout = 30000, commandTimeout = 30000,
       renderNumber = (\<lambda>n. ''5000''), jsonStringify = (\<lambda>attempts. ''[]'') \<rparr>"

definition clickThree :: SomCommand where
  "clickThree =
     \<lparr> elementRef = Some ''3'', action = CLICK, coord = None, val = None, force = False,
       durationSeconds = None \<rparr>"

definition quietScript :: script where
  "quietScript = \<lparr> voids = [], runs = [] \<rparr>"

text \<open>The oracle asks to wait, and supplies a command all the same.\<close>

definition waitRound :: round where
  "waitRound =
     \<lparr> stabilization = [AttemptOk],
       llm = Inr (emptyResponse\<lparr> shouldWait := True, commandsToRun := Some [clickThree] \<rparr>),
       io = quietScript \<rparr>"

definition doneRound :: round where
  "doneRound =
     \<lparr> stabilization = [AttemptOk],
       llm = Inr (emptyResponse\<lparr> stepCompleted := True \<rparr>),
       io = quietScript \<rparr>"

text \<open>Answers of the oracle to a verification request.\<close>

definition lowConfidence :: AiActionResult where
  "lowConfidence = emptyResponse\<lparr> verificationSuccess := Some False, confidence := Some 40 \<rparr>"

definition completedOnly :: AiActionResult where
  "completedOnly = emptyResponse\<lparr> stepCompleted := True \<rparr>"


definition verified :: AiActionResult where
  "verified = emptyResponse\<lparr> verificationSuccess := Some True, confidence := Some 90 \<rparr>"

section \<open>Verified properties\<close>

subsection \<open>Evaluating \<open>Number\<close> on the scenario's strings\<close>

lemmas Number_unfold =
  Number_def trim_def isStrWhiteSpace_def nonDecimalIntegerLiteral_def
  strDecimalLiteral_def strUnsignedDecimalLiteral_def isDecimalDigit_def exponentPart_def
  toDouble_def scaleDecimal_def digitsValue_def digitValue_def

lemma Number_12: "Number ''12'' = Num 12"
  by (simp add: Number_unfold)

lemma Number_7: "Number ''7'' = Num 7"
  by (simp add: Number_unfold)

lemma Number_abc: "Number ''abc'' = NaN"
  by (simp add: Number_unfold)

subsection \<open>extract()\<close>

text \<open>
  C8.  With return type \<open>int_array\<close>, the list \<open>["12", "7"]\<close> is returned as the
  numbers 12 and 7, and the list \<open>["12", "abc"]\<close> throws the numeric-coercion error
  naming \<open>abc\<close>.  A response with neither a non-empty \<open>extractedContent\<close> nor a
  non-empty \<open>extractedContentList\<close> throws, whatever the return type.  With return
  type \<open>string\<close> (requested or by default), a list of more than one entry is not turned
  into a single string: the list itself is the result.
\<close>

theorem extract_coercion:
  "(\<forall>r. extractedContentList r = Some [''12'', ''7''] \<longrightarrow>
        extract_fn True (Inr ()) (Inr r) (Some RT_int_array) = Inr (NumberArray [Num 12, Num 7]))
   \<and> (\<forall>r. extractedContentList r = Some [''12'', ''abc''] \<longrightarrow>
        extract_fn True (Inr ()) (Inr r) (Some RT_int_array)
          = Inl (Error ''Expected numeric value for extractedContentList, received: abc''))
   \<and> (\<forall>r opts. \<not> truthy (extractedContent r)
          \<and> (extractedContentList r = None \<or> extractedContentList r = Some []) \<longrightarrow>
        extract_fn True (Inr ()) (Inr r) opts
          = Inl (Error ''LLM response did not include extracted content.''))
   \<and> (\<forall>r l opts. extractedContentList r = Some l \<and> 1 < length l
          \<and> (opts = None \<or> opts = Some RT_string) \<longrightarrow>
        extract_fn True (Inr ()) (Inr r) opts = Inr (StringArray l))"
  by (auto simp add: Let_def extract_fn_def computeExtractResult_def castToNumber_def
      Number_12 Number_7 Number_abc)

theorem extract_coercion_witness:
  "extract_fn True (Inr ()) (Inr (emptyResponse\<lparr>extractedContentList := Some [''12'', ''7'']\<rparr>))
       (Some RT_int_array) = Inr (NumberArray [Num 12, Num 7])
   \<and> extract_fn True (Inr ()) (Inr (emptyResponse\<lparr>extractedContentList := Some [''12'', ''abc'']\<rparr>))
       (Some RT_int_array)
       = Inl (Error ''Expected numeric value for extractedContentList, received: abc'')
   \<and> extract_fn True (Inr ()) (Inr emptyResponse) (Some RT_int)
       = Inl (Error ''LLM response did not include extracted content.'')
   \<and> extract_fn True (Inr ()) (Inr (emptyResponse\<lparr>extractedContentList := Some [''a'', ''b'']\<rparr>))
       (Some RT_string) = Inr (StringArray [''a'', ''b''])"
  using extract_coercion by (simp add: emptyResponse_def truthy_def)

subsection \<open>Selector Synthesizer\<close>

lemma strIncludes_Nil [simp]: "strIncludes s []"
  by (cases s) (simp_all add: startsWith_def)

lemma strIncludes_single: "strIncludes s [c] \<longleftrightarrow> c \<in> set s"
  by (induction s) (auto simp: startsWith_def)

lemma stableIdStep_eq:
  "stableIdStep e xs =
     xs @ (if elemId e \<noteq> [] \<and> CHR '':'' \<notin> set (elemId e)
              \<and> \<not> startsWith (elemId e) ''rc_'' \<and> \<not> startsWith (elemId e) ''__''
              \<and> CHR 0xAB \<notin> set (elemId e)
           then [TypedSelector T_id (elemId e) None None] else [])"
  by (simp add: stableIdStep_def push_def strIncludes_single)

lemma labelStep_eq:
  "labelStep e xs =
     xs @ (if labelText e \<noteq> [] then [TypedSelector T_label (labelText e) None None] else [])"
  by (simp add: labelStep_def push_def)

lemma nameStep_eq:
  "nameStep e xs =
     xs @ (if elemName e \<noteq> [] \<and> (tag e = ''input'' \<or> tag e = ''textarea'' \<or> tag e = ''select'')
           then [TypedSelector T_name (elemName e) None None] else [])"
  by (simp add: nameStep_def push_def)

lemma placeholderStep_eq:
  "placeholderStep e xs =
     xs @ (if placeholder e \<noteq> []
           then [TypedSelector T_placeholder (placeholder e) None None] else [])"
  by (simp add: placeholderStep_def push_def)

lemma pseudoElementStep_eq:
  "pseudoElementStep e xs =
     xs @ (if hasVisiblePseudoElement e \<and> tag e = ''button''
           then (if elemType e = ''submit''
                 then [TypedSelector T_locator
                         (''button[type='' @ [CHR 0x22] @ ''submit'' @ [CHR 0x22] @ '']'') None None]
                 else [])
              @ (if firstSpaceSegment (className e) \<noteq> []
                    \<and> \<not> startsWith (firstSpaceSegment (className e)) ''css-''
                    \<and> \<not> startsWith (firstSpaceSegment (className e)) ''MuiButton-''
                    \<and> \<not> startsWith (firstSpaceSegment (className e)) ''ant-''
                    \<and> \<not> startsWith (firstSpaceSegment (className e)) ''btn-''
                 then [TypedSelector T_locator (''button.'' @ firstSpaceSegment (className e))
                         None None]
                 else [])
           else [])"
  by (simp add: pseudoElementStep_def push_def Let_def firstSpaceSegment_def)

lemma roleStep_eq:
  "roleStep e xs =
     xs @ (if \<not> hasVisiblePseudoElement e \<and> role e \<noteq> []
              \<and> (ariaLabel e \<noteq> [] \<or> elemText e \<noteq> [])
           then [TypedSelector T_role (role e)
                   (Some (if ariaLabel e \<noteq> [] then ariaLabel e else elemText e)) None]
           else [])"
  by (simp add: roleStep_def push_def Let_def)

lemma textStep_eq:
  "textStep e xs =
     xs @ (if \<not> hasVisiblePseudoElement e \<and> elemText e \<noteq> []
           then [TypedSelector T_text (elemText e) None None] else [])"
  by (simp add: textStep_def push_def)

lemma parentScopedStep_eq:
  "parentScopedStep e xs =
     xs @ (case parent e of
             None \<Rightarrow> []
           | Some p \<Rightarrow>
               if firstSpaceSegment (parentClassName p) \<noteq> []
               then [TypedSelector T_locator
                       (''.'' @ firstSpaceSegment (parentClassName p) @ '' '' @ tag e) None None]
               else [])"
  by (simp add: parentScopedStep_def push_def Let_def firstSpaceSegment_def split: option.split)

lemmas step_eqs =
  stableIdStep_eq labelStep_eq nameStep_eq placeholderStep_eq pseudoElementStep_eq
  roleStep_eq textStep_eq parentScopedStep_eq

lemma generateSemanticSelectors_append:
  "generateSemanticSelectors e =
     (if elemId e \<noteq> [] \<and> CHR '':'' \<notin> set (elemId e)
         \<and> \<not> startsWith (elemId e) ''rc_'' \<and> \<not> startsWith (elemId e) ''__''
         \<and> CHR 0xAB \<notin> set (elemId e)
      then [TypedSelector T_id (elemId e) None None] else [])
   @ (if labelText e \<noteq> [] then [TypedSelector T_label (labelText e) None None] else [])
   @ (if elemName e \<noteq> [] \<and> (tag e = ''input'' \<or> tag e = ''textarea'' \<or> tag e = ''select'')
      then [TypedSelector T_name (elemName e) None None] else [])
   @ (if placeholder e \<noteq> [] then [TypedSelector T_placeholder (placeholder e) None None] else [])
   @ (if hasVisiblePseudoElement e \<and> tag e = ''button''
      then (if elemType e = ''submit''
            then [TypedSelector T_locator
                    (''button[type='' @ [CHR 0x22] @ ''submit'' @ [CHR 0x22] @ '']'') None None]
            else [])
         @ (if firstSpaceSegment (className e) \<noteq> []
               \<and> \<not> startsWith (firstSpaceSegment (className e)) ''css-''
               \<and> \<not> startsWith (firstSpaceSegment (className e)) ''MuiButton-''
               \<and> \<not> startsWith (firstSpaceSegment (className e)) ''ant-''
               \<and> \<not> startsWith (firstSpaceSegment (className e)) ''btn-''
            then [TypedSelector T_locator (''button.'' @ firstSpaceSegment (className e)) None None]
            else [])
      else [])
   @ (if \<not> hasVisiblePseudoElement e \<and> role e \<noteq> [] \<and> (ariaLabel e \<noteq> [] \<or> elemText e \<noteq> [])
      then [TypedSelector T_role (role e)
              (Some (if ariaLabel e \<noteq> [] then ariaLabel e else elemText e)) None]
      else [])
   @ (if \<not> hasVisiblePseudoElement e \<and> elemText e \<noteq> []
      then [TypedSelector T_text (elemText e) None None] else [])
   @ (case parent e of
        None \<Rightarrow> []
      | Some p \<Rightarrow>
          if firstSpaceSegment (parentClassName p) \<noteq> []
          then [TypedSelector T_locator
                  (''.'' @ firstSpaceSegment (parentClassName p) @ '' '' @ tag e) None None]
          else [])"
  unfolding generateSemanticSelectors_def Let_def step_eqs
  by (simp only: append_assoc append_Nil)

lemma pseudo_no_role_text:
  "hasVisiblePseudoElement e \<Longrightarrow> s \<in> set (generateSemanticSelectors e)
     \<Longrightarrow> selType s \<noteq> T_role \<and> selType s \<noteq> T_text"
  unfolding generateSemanticSelectors_append by (auto split: if_splits option.splits)

text \<open>
  C4.  The selectors of a descriptor are, in this order and each only under its
  precondition: the stable id (a non-empty id with no colon, not starting with \<open>rc_\<close>
  or \<open>__\<close>, without the glyph U+00AB); the label text (non-empty only when a label
  element was detected); the form name, for \<open>input\<close>, \<open>textarea\<close> and \<open>select\<close>; the
  placeholder; for a button flagged \<open>hasVisiblePseudoElement\<close>, the CSS selectors by
  submit type and by first class; the role with the accessible name; the visible text;
  and last the tag scoped by the parent's first class.  For a descriptor flagged
  \<open>hasVisiblePseudoElement\<close> no selector of type role or text is produced.
\<close>

theorem generateSemanticSelectors_priority:
  "generateSemanticSelectors e =
     (if elemId e \<noteq> [] \<and> CHR '':'' \<notin> set (elemId e)
         \<and> \<not> startsWith (elemId e) ''rc_'' \<and> \<not> startsWith (elemId e) ''__''
         \<and> CHR 0xAB \<notin> set (elemId e)
      then [TypedSelector T_id (elemId e) None None] else [])
   @ (if labelText e \<noteq> [] then [TypedSelector T_label (labelText e) None None] else [])
   @ (if elemName e \<noteq> [] \<and> (tag e = ''input'' \<or> tag e = ''textarea'' \<or> tag e = ''select'')
      then [TypedSelector T_name (elemName e) None None] else [])
   @ (if placeholder e \<noteq> [] then [TypedSelector T_placeholder (placeholder e) None None] else [])
   @ (if hasVisiblePseudoElement e \<and> tag e = ''button''
      then (if elemType e = ''submit''
            then [TypedSelector T_locator
                    (''button[type='' @ [CHR 0x22] @ ''submit'' @ [CHR 0x22] @ '']'') None None]
            else [])
         @ (if firstSpaceSegment (className e) \<noteq> []
               \<and> \<not> startsWith (firstSpaceSegment (className e)) ''css-''
               \<and> \<not> startsWith (firstSpaceSegment (className e)) ''MuiButton-''
               \<and> \<not> startsWith (firstSpaceSegment (className e)) ''ant-''
               \<and> \<not> startsWith (firstSpaceSegment (className e)) ''btn-''
            then [TypedSelector T_locator (''button.'' @ firstSpaceSegment (className e)) None None]
            else [])
      else [])
   @ (if \<not> hasVisiblePseudoElement e \<and> role e \<noteq> [] \<and> (ariaLabel e \<noteq> [] \<or> elemText e \<noteq> [])
      then [TypedSelector T_role (role e)
              (Some (if ariaLabel e \<noteq> [] then ariaLabel e else elemText e)) None]
      else [])
   @ (if \<not> hasVisiblePseudoElement e \<and> elemText e \<noteq> []
      then [TypedSelector T_text (elemText e) None None] else [])
   @ (case parent e of
        None \<Rightarrow> []
      | Some p \<Rightarrow>
          if firstSpaceSegment (parentClassName p) \<noteq> []
          then [TypedSelector T_locator
                  (''.'' @ firstSpaceSegment (parentClassName p) @ '' '' @ tag e) None None]
          else [])
   \<and> (hasVisiblePseudoElement e \<longrightarrow>
        (\<forall>s \<in> set (generateSemanticSelectors e). selType s \<noteq> T_role \<and> selType s \<noteq> T_text))"
  using generateSemanticSelectors_append [of e] pseudo_no_role_text [of e] by blast

theorem generateSemanticSelectors_priority_witness:
  "hasVisiblePseudoElement pseudoSubmit
   \<and> generateSemanticSelectors pseudoSubmit =
       [TypedSelector T_id ''save'' None None,
        TypedSelector T_locator (''button[type='' @ [CHR 0x22] @ ''submit'' @ [CHR 0x22] @ '']'')
          None None,
        TypedSelector T_locator ''button.btn'' None None,
        TypedSelector T_locator ''.login button'' None None]
   \<and> T_role \<notin> set (map selType (generateSemanticSelectors pseudoSubmit))
   \<and> T_text \<notin> set (map selType (generateSemanticSelectors pseudoSubmit))"
proof -
  have flagged: "hasVisiblePseudoElement pseudoSubmit"
    by (simp add: pseudoSubmit_def)
  have segs: "firstSpaceSegment ''btn primary'' = ''btn''"
    "firstSpaceSegment ''login wide'' = ''login''"
    by (simp_all add: firstSpaceSegment_def)
  from generateSemanticSelectors_priority [of pseudoSubmit] flagged show ?thesis
    by (simp add: pseudoSubmit_def saveButton_def segs startsWith_def)
qed

subsection \<open>Target Reconciler\<close>

lemma add_points: "(if A then (s::int) + k else s) = s + (if A then k else 0)"
  by simp

lemma add_points2: "(if A then (s::int) + k else s + m) = s + (if A then k else m)"
  by simp

lemma scoreCandidate_formula:
  "scoreCandidate e c =
     (if candTag c = toLowerCase (tag e) \<and> toLowerCase (tag e) \<noteq> [] then 5 else 0)
   + (if classTokens (className e) \<noteq> []
      then (if \<forall>cls \<in> set (classTokens (className e)). cls \<in> set (classTokens (candClassName c))
            then 5
            else if \<exists>cls \<in> set (classTokens (className e)). cls \<in> set (classTokens (candClassName c))
            then 3
            else 0)
      else 0)
   + (if trim (elemText e) \<noteq> []
      then (if trim (candText c) = trim (elemText e) then 4
            else if strIncludes (trim (candText c)) (trim (elemText e)) then 2
            else 0)
      else 0)
   + (if trim (ariaLabel e) \<noteq> [] \<and> trim (candAriaLabel c) = trim (ariaLabel e) then 2 else 0)
   + (if width (bbox e) \<noteq> 0 \<and> height (bbox e) \<noteq> 0
      then (if \<bar>width (candBBox c) - width (bbox e)\<bar> < 2
               \<and> \<bar>height (candBBox c) - height (bbox e)\<bar> < 2 then 2
            else if \<bar>width (candBBox c) - width (bbox e)\<bar> < 6
               \<and> \<bar>height (candBBox c) - height (bbox e)\<bar> < 6 then 1
            else 0)
      else 0)"
  unfolding scoreCandidate_def Let_def list_all_iff list_ex_iff
  by (simp only: add_points add_points2 add_0 cong del: if_weak_cong)

lemma outranked_trans: "outranked a b \<Longrightarrow> outranked b c \<Longrightarrow> outranked a c"
  by (auto simp: outranked_def)

lemma better_left: "outranked b (better b x)"
  by (auto simp: outranked_def better_def)

lemma better_right: "outranked x (better b x)"
  by (auto simp: outranked_def better_def)

lemma better_cases: "better b x = b \<or> better b x = x"
  by (simp add: better_def)

lemma foldl_better_in: "foldl better b xs \<in> set (b # xs)"
proof (induction xs arbitrary: b)
  case Nil
  then show ?case by simp
next
  case (Cons x xs)
  from Cons.IH [of "better b x"] better_cases [of b x] show ?case by auto
qed

lemma foldl_better_init: "outranked b (foldl better b xs)"
proof (induction xs arbitrary: b)
  case Nil
  then show ?case by (simp add: outranked_def)
next
  case (Cons x xs)
  from outranked_trans [OF better_left Cons.IH] show ?case by simp
qed

lemma foldl_better_max: "c \<in> set xs \<Longrightarrow> outranked c (foldl better b xs)"
proof (induction xs arbitrary: b)
  case Nil
  then show ?case by simp
next
  case (Cons x xs)
  show ?case
  proof (cases "c = x")
    case True
    from outranked_trans [OF better_right foldl_better_init] show ?thesis
      unfolding True by simp
  next
    case False
    with Cons.prems have "c \<in> set xs" by simp
    from Cons.IH [OF this] show ?thesis by simp
  qed
qed

lemma pickBest_in: "scored \<noteq> [] \<Longrightarrow> pickBest scored \<in> set scored"
  using foldl_better_in [of "scored ! 0" scored] by (cases scored) (auto simp: pickBest_def)

lemma pickBest_max: "c \<in> set scored \<Longrightarrow> outranked c (pickBest scored)"
  by (simp add: pickBest_def foldl_better_max)

lemma queryMarked_length [simp]: "length (queryMarked nodes) = length nodes"
  by (simp add: queryMarked_def)

lemma queryMarked_nth:
  "i < length nodes \<Longrightarrow> queryMarked nodes ! i = describeNode i (nodes ! i)"
  by (simp add: queryMarked_def nth_enumerate_eq)

lemma scored_nth:
  "i < length nodes \<Longrightarrow>
     candIndex (map (withScore e) (queryMarked nodes) ! i) = i
     \<and> scoreOf (map (withScore e) (queryMarked nodes) ! i)
         = scoreCandidate e (describeNode i (nodes ! i))"
  by (simp add: queryMarked_nth withScore_def scoreOf_def describeNode_def)

lemma resolve_duplicates:
  assumes len: "2 \<le> length nodes"
  shows "(if \<forall>i < length nodes. scoreCandidate e (describeNode i (nodes ! i)) \<le> 0
          then resolveSomTarget (Inr nodes) ref e
                 = Inl (SomReannotationRequiredError
                     (''Duplicate SoM id '' @ [CHR 0x22] @ ref @ [CHR 0x22]
                        @ '' no longer matches original element''))
          else \<exists>k < length nodes.
                 resolveSomTarget (Inr nodes) ref e
                   = Inr \<lparr> resIndex = k, duplicateCount = length nodes,
                           candidates = map (withScore e) (queryMarked nodes) \<rparr>
                 \<and> 0 < scoreCandidate e (describeNode k (nodes ! k))
                 \<and> (\<forall>i < length nodes. scoreCandidate e (describeNode i (nodes ! i))
                        \<le> scoreCandidate e (describeNode k (nodes ! k)))
                 \<and> (\<forall>i < k. scoreCandidate e (describeNode i (nodes ! i))
                        < scoreCandidate e (describeNode k (nodes ! k))))"
proof -
  define scored where "scored = map (withScore e) (queryMarked nodes)"
  define best where "best = pickBest scored"
  define S where "S = (\<lambda>i. scoreCandidate e (describeNode i (nodes ! i)))"
  have slen: "length scored = length nodes" by (simp add: scored_def)
  with len have ne: "scored \<noteq> []" by auto
  from pickBest_in [OF ne] obtain k where k: "k < length nodes" "best = scored ! k"
    unfolding best_def by (auto simp: in_set_conv_nth slen)
  have idx: "candIndex best = k" and sc: "scoreOf best = S k"
    using scored_nth [OF k(1), of e] by (simp_all add: k(2) scored_def S_def)
  have dom: "S i < S k \<or> (S i = S k \<and> k \<le> i)" if "i < length nodes" for i
  proof -
    from that have "scored ! i \<in> set scored" by (simp add: slen)
    from pickBest_max [OF this] scored_nth [OF that, of e] show ?thesis
      by (simp add: outranked_def best_def [symmetric] idx sc scored_def [symmetric] S_def)
  qed
  have all_le: "\<forall>i < length nodes. S i \<le> S k" using dom by force
  have before: "\<forall>i < k. S i < S k"
  proof (intro allI impI)
    fix i assume ik: "i < k"
    with k(1) have "i < length nodes" by simp
    from dom [OF this] ik show "S i < S k" by auto
  qed
  have res: "resolveSomTarget (Inr nodes) ref e =
          (if S k \<le> 0
           then Inl (SomReannotationRequiredError
                     (''Duplicate SoM id '' @ [CHR 0x22] @ ref @ [CHR 0x22]
                        @ '' no longer matches original element''))
           else Inr \<lparr> resIndex = k, duplicateCount = length nodes, candidates = scored \<rparr>)"
    using len by (simp add: resolveSomTarget_def Let_def scored_def [symmetric]
        best_def [symmetric] idx sc)
  show ?thesis
  proof (cases "S k \<le> 0")
    case True
    with all_le have "\<forall>i < length nodes. S i \<le> 0" by force
    with True res show ?thesis by (simp add: S_def)
  next
    case False
    with k(1) have "\<not> (\<forall>i < length nodes. S i \<le> 0)" by auto
    moreover have "0 < S k" using False by simp
    ultimately show ?thesis using res False k(1) all_le before
      unfolding S_def scored_def by auto
  qed
qed

lemma full_match_lower:
  assumes "candTag a = toLowerCase (tag e)"
    and "set (classTokens (className e)) \<subseteq> set (classTokens (candClassName a))"
    and "trim (candText a) = trim (elemText e)"
    and "classTokens (className e) \<noteq> []" and "trim (elemText e) \<noteq> []"
  shows "(if toLowerCase (tag e) \<noteq> [] then 5 else 0) + 9 \<le> scoreCandidate e a"
  using assms unfolding scoreCandidate_formula by (auto simp: subset_iff)

lemma tag_only_upper:
  assumes "set (classTokens (className e)) \<inter> set (classTokens (candClassName b)) = {}"
    and "trim (candText b) \<noteq> trim (elemText e)"
    and "\<not> strIncludes (trim (candText b)) (trim (elemText e))"
  shows "scoreCandidate e b \<le> (if toLowerCase (tag e) \<noteq> [] then 5 else 0) + 4"
  using assms unfolding scoreCandidate_formula by (auto simp: disjoint_iff)

lemma full_match_outscores:
  assumes "candTag a = toLowerCase (tag e)"
    and "set (classTokens (className e)) \<subseteq> set (classTokens (candClassName a))"
    and "trim (candText a) = trim (elemText e)"
    and "\<not> set (classTokens (className e)) \<subseteq> set (classTokens (candClassName b))"
    and "set (classTokens (className e)) \<inter> set (classTokens (candClassName b)) = {}"
    and "trim (candText b) \<noteq> trim (elemText e)"
    and "\<not> strIncludes (trim (candText b)) (trim (elemText e))"
  shows "scoreCandidate e b < scoreCandidate e a"
proof -
  from assms(4) have ne: "classTokens (className e) \<noteq> []" by auto
  from assms(7) have nt: "trim (elemText e) \<noteq> []" by auto
  from full_match_lower [OF assms(1-3) ne nt] tag_only_upper [OF assms(5-7)]
  show ?thesis by (simp split: if_splits)
qed

text \<open>
  C3.  (1) The score of a candidate against the original descriptor is the sum of: 5
  for the same (non-empty) tag; 5 when every class token of the descriptor is among the
  candidate's, else 3 when some is; 4 for the same trimmed text, else 2 when the
  descriptor's text occurs in the candidate's; 2 for the same (non-empty) accessible
  name; 2 when width and height both differ by less than 2 pixels, else 1 when both
  differ by less than 6.  (2) When two or more live nodes carry the marker: if every
  score is at most 0 the re-annotation error is raised; otherwise the result is the
  index of a candidate with the highest score, every candidate before it scoring
  strictly less.  (3) A candidate with the descriptor's tag, all of its class tokens and
  exactly its text scores more than a candidate that shares no class token and whose
  text neither equals nor contains the descriptor's, whatever the latter's tag,
  accessible name and size.
\<close>

theorem resolveSomTarget_scoring:
  "(\<forall>e c. scoreCandidate e c =
       (if candTag c = toLowerCase (tag e) \<and> toLowerCase (tag e) \<noteq> [] then 5 else 0)
     + (if classTokens (className e) \<noteq> []
        then (if \<forall>cls \<in> set (classTokens (className e)). cls \<in> set (classTokens (candClassName c))
              then 5
              else if \<exists>cls \<in> set (classTokens (className e)). cls \<in> set (classTokens (candClassName c))
              then 3
              else 0)
        else 0)
     + (if trim (elemText e) \<noteq> []
        then (if trim (candText c) = trim (elemText e) then 4
              else if strIncludes (trim (candText c)) (trim (elemText e)) then 2
              else 0)
        else 0)
     + (if trim (ariaLabel e) \<noteq> [] \<and> trim (candAriaLabel c) = trim (ariaLabel e) then 2 else 0)
     + (if width (bbox e) \<noteq> 0 \<and> height (bbox e) \<noteq> 0
        then (if \<bar>width (candBBox c) - width (bbox e)\<bar> < 2
                 \<and> \<bar>height (candBBox c) - height (bbox e)\<bar> < 2 then 2
              else if \<bar>width (candBBox c) - width (bbox e)\<bar> < 6
                 \<and> \<bar>height (candBBox c) - height (bbox e)\<bar> < 6 then 1
              else 0)
        else 0))
   \<and> (\<forall>nodes ref e. 2 \<le> length nodes \<longrightarrow>
         (if \<forall>i < length nodes. scoreCandidate e (describeNode i (nodes ! i)) \<le> 0
          then resolveSomTarget (Inr nodes) ref e
                 = Inl (SomReannotationRequiredError
                     (''Duplicate SoM id '' @ [CHR 0x22] @ ref @ [CHR 0x22]
                        @ '' no longer matches original element''))
          else \<exists>k < length nodes.
                 resolveSomTarget (Inr nodes) ref e
                   = Inr \<lparr> resIndex = k, duplicateCount = length nodes,
                           candidates = map (withScore e) (queryMarked nodes) \<rparr>
                 \<and> 0 < scoreCandidate e (describeNode k (nodes ! k))
                 \<and> (\<forall>i < length nodes. scoreCandidate e (describeNode i (nodes ! i))
                        \<le> scoreCandidate e (describeNode k (nodes ! k)))
                 \<and> (\<forall>i < k. scoreCandidate e (describeNode i (nodes ! i))
                        < scoreCandidate e (describeNode k (nodes ! k)))))
   \<and> (\<forall>e a b.
         candTag a = toLowerCase (tag e)
         \<and> set (classTokens (className e)) \<subseteq> set (classTokens (candClassName a))
         \<and> trim (candText a) = trim (elemText e)
         \<and> \<not> set (classTokens (className e)) \<subseteq> set (classTokens (candClassName b))
         \<and> set (classTokens (className e)) \<inter> set (classTokens (candClassName b)) = {}
         \<and> trim (candText b) \<noteq> trim (elemText e)
         \<and> \<not> strIncludes (trim (candText b)) (trim (elemText e))
         \<longrightarrow> scoreCandidate e b < scoreCandidate e a)"
proof (intro conjI allI impI)
  fix e c
  show "scoreCandidate e c =
       (if candTag c = toLowerCase (tag e) \<and> toLowerCase (tag e) \<noteq> [] then 5 else 0)
     + (if classTokens (className e) \<noteq> []
        then (if \<forall>cls \<in> set (classTokens (className e)). cls \<in> set (classTokens (candClassName c))
              then 5
              else if \<exists>cls \<in> set (classTokens (className e)). cls \<in> set (classTokens (candClassName c))
              then 3
              else 0)
        else 0)
     + (if trim (elemText e) \<noteq> []
        then (if trim (candText c) = trim (elemText e) then 4
              else if strIncludes (trim (candText c)) (trim (elemText e)) then 2
              else 0)
        else 0)
     + (if trim (ariaLabel e) \<noteq> [] \<and> trim (candAriaLabel c) = trim (ariaLabel e) then 2 else 0)
     + (if width (bbox e) \<noteq> 0 \<and> height (bbox e) \<noteq> 0
        then (if \<bar>width (candBBox c) - width (bbox e)\<bar> < 2
                 \<and> \<bar>height (candBBox c) - height (bbox e)\<bar> < 2 then 2
              else if \<bar>width (candBBox c) - width (bbox e)\<bar> < 6
                 \<and> \<bar>height (candBBox c) - height (bbox e)\<bar> < 6 then 1
              else 0)
        else 0)"
    by (rule scoreCandidate_formula)
next
  fix nodes :: "LiveNode list" and ref e
  assume "2 \<le> length nodes"
  then show "if \<forall>i < length nodes. scoreCandidate e (describeNode i (nodes ! i)) \<le> 0
          then resolveSomTarget (Inr nodes) ref e
                 = Inl (SomReannotationRequiredError
                     (''Duplicate SoM id '' @ [CHR 0x22] @ ref @ [CHR 0x22]
                        @ '' no longer matches original element''))
          else \<exists>k < length nodes.
                 resolveSomTarget (Inr nodes) ref e
                   = Inr \<lparr> resIndex = k, duplicateCount = length nodes,
                           candidates = map (withScore e) (queryMarked nodes) \<rparr>
                 \<and> 0 < scoreCandidate e (describeNode k (nodes ! k))
                 \<and> (\<forall>i < length nodes. scoreCandidate e (describeNode i (nodes ! i))
                        \<le> scoreCandidate e (describeNode k (nodes ! k)))
                 \<and> (\<forall>i < k. scoreCandidate e (describeNode i (nodes ! i))
                        < scoreCandidate e (describeNode k (nodes ! k)))"
    by (rule resolve_duplicates)
next
  fix e :: SomElement and a b :: Candidate
  assume h: "candTag a = toLowerCase (tag e)
         \<and> set (classTokens (className e)) \<subseteq> set (classTokens (candClassName a))
         \<and> trim (candText a) = trim (elemText e)
         \<and> \<not> set (classTokens (className e)) \<subseteq> set (classTokens (candClassName b))
         \<and> set (classTokens (className e)) \<inter> set (classTokens (candClassName b)) = {}
         \<and> trim (candText b) \<noteq> trim (elemText e)
         \<and> \<not> strIncludes (trim (candText b)) (trim (elemText e))"
  then show "scoreCandidate e b < scoreCandidate e a"
    by (intro full_match_outscores) simp_all
qed

lemma saveNode_facts:
  "candTag (describeNode 1 saveNode) = toLowerCase (tag saveButton)"
  "set (classTokens (className saveButton))
     \<subseteq> set (classTokens (candClassName (describeNode 1 saveNode)))"
  "trim (candText (describeNode 1 saveNode)) = trim (elemText saveButton)"
  by code_simp+

lemma cancelNode_facts:
  "\<not> set (classTokens (className saveButton))
       \<subseteq> set (classTokens (candClassName (describeNode 0 cancelNode)))"
  "set (classTokens (className saveButton))
     \<inter> set (classTokens (candClassName (describeNode 0 cancelNode))) = {}"
  "trim (candText (describeNode 0 cancelNode)) \<noteq> trim (elemText saveButton)"
  "\<not> strIncludes (trim (candText (describeNode 0 cancelNode))) (trim (elemText saveButton))"
  by code_simp+

lemma example_scores:
  "scoreCandidate saveButton (describeNode 0 cancelNode) = 5"
  "scoreCandidate saveButton (describeNode 1 saveNode) = 16"
  by code_simp+

theorem resolveSomTarget_scoring_witness:
  "2 \<le> length [cancelNode, saveNode]
   \<and> resolveSomTarget (Inr [cancelNode, saveNode]) ''3'' saveButton
       = Inr \<lparr> resIndex = 1, duplicateCount = 2,
               candidates = map (withScore saveButton) (queryMarked [cancelNode, saveNode]) \<rparr>
   \<and> scoreCandidate saveButton (describeNode 0 cancelNode)
       < scoreCandidate saveButton (describeNode 1 saveNode)"
proof -
  let ?nodes = "[cancelNode, saveNode]"
  let ?S = "\<lambda>i. scoreCandidate saveButton (describeNode i (?nodes ! i))"
  have len: "2 \<le> length ?nodes" by simp
  have S0: "?S 0 = 5" and S1: "?S 1 = 16"
    using example_scores by simp_all
  have pos: "\<not> (\<forall>i < length ?nodes. ?S i \<le> 0)"
  proof
    assume "\<forall>i < length ?nodes. ?S i \<le> 0"
    then have "0 < length ?nodes \<longrightarrow> ?S 0 \<le> 0" by (rule spec)
    then have "?S 0 \<le> 0" by simp
    with S0 show False by simp
  qed
  from resolveSomTarget_scoring have
    "2 \<le> length ?nodes \<longrightarrow>
       (if \<forall>i < length ?nodes. ?S i \<le> 0
          then resolveSomTarget (Inr ?nodes) ''3'' saveButton
                 = Inl (SomReannotationRequiredError
                     (''Duplicate SoM id '' @ [CHR 0x22] @ ''3'' @ [CHR 0x22]
                        @ '' no longer matches original element''))
          else \<exists>k < length ?nodes.
                 resolveSomTarget (Inr ?nodes) ''3'' saveButton
                   = Inr \<lparr> resIndex = k, duplicateCount = length ?nodes,
                           candidates = map (withScore saveButton) (queryMarked ?nodes) \<rparr>
                 \<and> 0 < ?S k
                 \<and> (\<forall>i < length ?nodes. ?S i \<le> ?S k)
                 \<and> (\<forall>i < k. ?S i < ?S k))"
    by blast
  with len have
    "if \<forall>i < length ?nodes. ?S i \<le> 0
          then resolveSomTarget (Inr ?nodes) ''3'' saveButton
                 = Inl (SomReannotationRequiredError
                     (''Duplicate SoM id '' @ [CHR 0x22] @ ''3'' @ [CHR 0x22]
                        @ '' no longer matches original element''))
          else \<exists>k < length ?nodes.
                 resolveSomTarget (Inr ?nodes) ''3'' saveButton
                   = Inr \<lparr> resIndex = k, duplicateCount = length ?nodes,
                           candidates = map (withScore saveButton) (queryMarked ?nodes) \<rparr>
                 \<and> 0 < ?S k
                 \<and> (\<forall>i < length ?nodes. ?S i \<le> ?S k)
                 \<and> (\<forall>i < k. ?S i < ?S k)"
    by (rule mp [rotated])
  then have "\<exists>k < length ?nodes.
                 resolveSomTarget (Inr ?nodes) ''3'' saveButton
                   = Inr \<lparr> resIndex = k, duplicateCount = length ?nodes,
                           candidates = map (withScore saveButton) (queryMarked ?nodes) \<rparr>
                 \<and> 0 < ?S k
                 \<and> (\<forall>i < length ?nodes. ?S i \<le> ?S k)
                 \<and> (\<forall>i < k. ?S i < ?S k)"
    using pos by (simp only: if_False)
  then obtain k where k: "k < length ?nodes"
    "resolveSomTarget (Inr ?nodes) ''3'' saveButton
       = Inr \<lparr> resIndex = k, duplicateCount = length ?nodes,
               candidates = map (withScore saveButton) (queryMarked ?nodes) \<rparr>"
    "\<forall>i < length ?nodes. ?S i \<le> ?S k"
    by blast
  have "k = 1"
  proof (rule ccontr)
    assume "k \<noteq> 1"
    with k(1) have k0: "k = 0" by simp
    from k(3) have "1 < length ?nodes \<longrightarrow> ?S 1 \<le> ?S k" by (rule spec)
    then have "?S 1 \<le> ?S k" by simp
    with k0 S0 S1 show False by simp
  qed
  with k(2) have res: "resolveSomTarget (Inr ?nodes) ''3'' saveButton
       = Inr \<lparr> resIndex = 1, duplicateCount = 2,
               candidates = map (withScore saveButton) (queryMarked ?nodes) \<rparr>"
    by simp
  from resolveSomTarget_scoring saveNode_facts cancelNode_facts
  have "scoreCandidate saveButton (describeNode 0 cancelNode)
       < scoreCandidate saveButton (describeNode 1 saveNode)"
    by blast
  with len res show ?thesis by simp
qed

subsection \<open>Action Executor\<close>

text \<open>
  C10.  On a live page, a command that is not a navigation, has no coordinate, and whose
  \<open>elementRef\<close> is absent or is not a key of the marker map, makes \<open>runCommand\<close> return
  (not throw) a result with status failure, an error message that is not empty and no
  failed attempts, and nothing is asked of the driver: no selector attempt, no
  coordinate action.
\<close>

theorem runCommand_unresolved_target:
  assumes "pageLive h"
    and "\<not> isNavigationAction (action cmd)"
    and "coord cmd = None"
    and "elementRef cmd = None \<or> (\<exists>r. elementRef cmd = Some r \<and> r \<notin> dom (somMap h))"
  shows "\<exists>msg. msg \<noteq> []
           \<and> runCommand h drv cmd useSomIdBasedCommands
               = (Inr \<lparr> failedAttempts = [], successAttempt = None, error = Some msg,
                        status = FAILURE, mutations = None \<rparr>, [])"
proof (cases "truthy (elementRef cmd)")
  case False
  with assms(1-3) show ?thesis
    by (auto simp: runCommand_def isNavigationAction_def failureResult_def)
next
  case True
  with assms(4) obtain r where r: "elementRef cmd = Some r" "r \<notin> dom (somMap h)"
    by (auto simp: truthy_def)
  then have "somMap h (orEmpty (elementRef cmd)) = None"
    by (auto simp: orEmpty_def)
  with True assms(1-3) show ?thesis
    by (auto simp: runCommand_def isNavigationAction_def failureResult_def)
qed

theorem runCommand_unresolved_target_witness:
  "pageLive oneMarker \<and> coord clickNine = None \<and> elementRef clickNine = Some ''9''
   \<and> runCommand oneMarker idleDriver clickNine False
       = (Inr \<lparr> failedAttempts = [], successAttempt = None,
                error = Some (''Element with SoM ID '' @ [CHR 0x22] @ ''9'' @ [CHR 0x22]
                               @ '' not found in map''),
                status = FAILURE, mutations = None \<rparr>, [])"
proof -
  have h: "pageLive oneMarker" "\<not> isNavigationAction (action clickNine)" "coord clickNine = None"
    "elementRef clickNine = None
       \<or> (\<exists>r. elementRef clickNine = Some r \<and> r \<notin> dom (somMap oneMarker))"
    by (simp_all add: oneMarker_def clickNine_def isNavigationAction_def)
  from runCommand_unresolved_target [OF h, of idleDriver False]
  obtain msg where "runCommand oneMarker idleDriver clickNine False
               = (Inr \<lparr> failedAttempts = [], successAttempt = None, error = Some msg,
                        status = FAILURE, mutations = None \<rparr>, [])"
    by blast
  moreover have "runCommand oneMarker idleDriver clickNine False
       = (Inr \<lparr> failedAttempts = [], successAttempt = None,
                error = Some (''Element with SoM ID '' @ [CHR 0x22] @ ''9'' @ [CHR 0x22]
                               @ '' not found in map''),
                status = FAILURE, mutations = None \<rparr>, [])"
    by (simp add: runCommand_def oneMarker_def clickNine_def truthy_def orEmpty_def
        failureResult_def)
  ultimately show ?thesis using h by (simp add: clickNine_def)
qed

subsection \<open>Annotator\<close>

lemma annotate_fst:
  "map fst (annotate pg off dis els c) = filter (marks pg off dis) els"
  by (induction els arbitrary: c) auto

lemma annotate_length:
  "length (annotate pg off dis els c) = length (filter (marks pg off dis) els)"
  using annotate_fst [of pg off dis els c] by (metis length_map)






lemma setAll_Nil [simp]: "setAll m [] = m"
  by (simp add: setAll_def)

lemma setAll_Cons [simp]: "setAll m (kv # kvs) = setAll (m(fst kv \<mapsto> snd kv)) kvs"
  by (simp add: setAll_def)




lemma markedElements_filter:
  "markedElements pg off dis = filter (marks pg off dis) (interactive pg)"
  by (simp add: markedElements_def annotate_fst)

lemma somId_capture [simp]: "somId (capture el k) = k"
  by (simp add: capture_def)


lemma marks_occluded:
  "\<not> off \<Longrightarrow> isInViewport pg el \<Longrightarrow> \<forall>p \<in> set (testPoints el). \<not> visibleAt pg el p
     \<Longrightarrow> \<not> marks pg off dis el"
  by (simp add: marks_def visiblePoints_def filter_False)

lemma marks_visible:
  "\<not> off \<Longrightarrow> isInViewport pg el \<Longrightarrow> \<exists>p \<in> set (testPoints el). visibleAt pg el p
     \<Longrightarrow> rectWidth el \<noteq> 0 \<Longrightarrow> rectHeight el \<noteq> 0
     \<Longrightarrow> \<not> isHidden el \<or> hasVisiblePseudo el
     \<Longrightarrow> \<not> isDisabled el \<or> dis
     \<Longrightarrow> marks pg off dis el"
  by (auto simp: marks_def visiblePoints_def filter_empty_conv)

lemma marks_offscreen:
  "\<not> isInViewport pg el \<Longrightarrow>
     marks pg off dis el \<longleftrightarrow>
       off \<and> rectWidth el \<noteq> 0 \<and> rectHeight el \<noteq> 0
       \<and> (\<not> isHidden el \<or> hasVisiblePseudo el) \<and> (\<not> isDisabled el \<or> dis)"
  by (auto simp: marks_def)

lemma marks_include_offscreen:
  "off \<Longrightarrow>
     marks pg off dis el \<longleftrightarrow>
       rectWidth el \<noteq> 0 \<and> rectHeight el \<noteq> 0
       \<and> (\<not> isHidden el \<or> hasVisiblePseudo el) \<and> (\<not> isDisabled el \<or> dis)"
  by (auto simp: marks_def)

lemma example_page_facts:
  "visiblePoints coveredPage coveredButton = 0"
  "visiblePoints coveredPage freeButton = 5"
  "isInViewport coveredPage coveredButton"
  "isInViewport coveredPage freeButton"
  "\<not> isInViewport coveredPage belowFold"
  "markedElements coveredPage False False = [freeButton]"
  "markedElements coveredPage True False = [coveredButton, freeButton, belowFold]"
  by code_simp+




text \<open>
  C2, as the code has it.  Each candidate has five sample points.  (a) In a pass that
  does not request offscreen inclusion, a candidate in the viewport none of whose sample
  points is visible (the top element there is neither the candidate nor related to it)
  receives no marker.  (b) In such a pass, a candidate in the viewport that has a size,
  is not hidden (or shows a pseudo-element), is not filtered as disabled, and has a
  visible sample point, receives a marker.  (c) A candidate outside the viewport receives
  a marker exactly when offscreen inclusion is requested and it passes the size,
  visibility and disabled filters.  (d) When offscreen inclusion is requested, every
  candidate that passes those three filters receives a marker: no occlusion test is made,
  in the viewport or outside it.
\<close>

theorem occlusion_filter:
  "length (testPoints el) = 5
   \<and> (\<not> off \<and> isInViewport pg el \<and> (\<forall>p \<in> set (testPoints el). \<not> visibleAt pg el p)
        \<longrightarrow> el \<notin> set (markedElements pg off dis))
   \<and> (el \<in> set (interactive pg) \<and> \<not> off \<and> isInViewport pg el
        \<and> rectWidth el \<noteq> 0 \<and> rectHeight el \<noteq> 0
        \<and> (\<not> isHidden el \<or> hasVisiblePseudo el) \<and> (\<not> isDisabled el \<or> dis)
        \<and> (\<exists>p \<in> set (testPoints el). visibleAt pg el p)
        \<longrightarrow> el \<in> set (markedElements pg off dis))
   \<and> (\<not> isInViewport pg el \<longrightarrow>
        (el \<in> set (markedElements pg off dis) \<longleftrightarrow>
           off \<and> el \<in> set (interactive pg)
           \<and> rectWidth el \<noteq> 0 \<and> rectHeight el \<noteq> 0
           \<and> (\<not> isHidden el \<or> hasVisiblePseudo el) \<and> (\<not> isDisabled el \<or> dis)))
   \<and> (off \<longrightarrow>
        (el \<in> set (markedElements pg off dis) \<longleftrightarrow>
           el \<in> set (interactive pg)
           \<and> rectWidth el \<noteq> 0 \<and> rectHeight el \<noteq> 0
           \<and> (\<not> isHidden el \<or> hasVisiblePseudo el) \<and> (\<not> isDisabled el \<or> dis)))"
proof (intro conjI impI)
  show "length (testPoints el) = 5"
    by (simp add: testPoints_def Let_def)
next
  assume "\<not> off \<and> isInViewport pg el \<and> (\<forall>p \<in> set (testPoints el). \<not> visibleAt pg el p)"
  then have "\<not> marks pg off dis el" by (intro marks_occluded) simp_all
  then show "el \<notin> set (markedElements pg off dis)"
    by (simp add: markedElements_filter)
next
  assume a: "el \<in> set (interactive pg) \<and> \<not> off \<and> isInViewport pg el
        \<and> rectWidth el \<noteq> 0 \<and> rectHeight el \<noteq> 0
        \<and> (\<not> isHidden el \<or> hasVisiblePseudo el) \<and> (\<not> isDisabled el \<or> dis)
        \<and> (\<exists>p \<in> set (testPoints el). visibleAt pg el p)"
  then have "marks pg off dis el" by (intro marks_visible) simp_all
  with a show "el \<in> set (markedElements pg off dis)"
    by (simp add: markedElements_filter)
next
  assume "\<not> isInViewport pg el"
  from marks_offscreen [OF this, of off dis]
  show "el \<in> set (markedElements pg off dis) \<longleftrightarrow>
           off \<and> el \<in> set (interactive pg)
           \<and> rectWidth el \<noteq> 0 \<and> rectHeight el \<noteq> 0
           \<and> (\<not> isHidden el \<or> hasVisiblePseudo el) \<and> (\<not> isDisabled el \<or> dis)"
    by (auto simp: markedElements_filter)
next
  assume off
  from marks_include_offscreen [OF this, of pg dis el]
  show "el \<in> set (markedElements pg off dis) \<longleftrightarrow>
           el \<in> set (interactive pg)
           \<and> rectWidth el \<noteq> 0 \<and> rectHeight el \<noteq> 0
           \<and> (\<not> isHidden el \<or> hasVisiblePseudo el) \<and> (\<not> isDisabled el \<or> dis)"
    by (auto simp: markedElements_filter)
qed

lemma plain_eligible:
  "rectWidth (plainElement n y) \<noteq> 0" "rectHeight (plainElement n y) \<noteq> 0"
  "\<not> isHidden (plainElement n y)" "\<not> isDisabled (plainElement n y)"
  by (simp_all add: plainElement_def isHidden_def isDisabled_def)

theorem occlusion_filter_witness:
  "coveredButton \<notin> set (markedElements coveredPage False False)
   \<and> freeButton \<in> set (markedElements coveredPage False False)
   \<and> belowFold \<notin> set (markedElements coveredPage False False)
   \<and> belowFold \<in> set (markedElements coveredPage True False)
   \<and> coveredButton \<in> set (markedElements coveredPage True False)"
proof -
  have hidden: "\<forall>p \<in> set (testPoints coveredButton). \<not> visibleAt coveredPage coveredButton p"
    using example_page_facts(1) by (simp add: visiblePoints_def filter_empty_conv)
  have seen: "\<exists>p \<in> set (testPoints freeButton). visibleAt coveredPage freeButton p"
  proof (rule ccontr)
    assume "\<not> ?thesis"
    then have "visiblePoints coveredPage freeButton = 0"
      by (simp add: visiblePoints_def filter_empty_conv)
    with example_page_facts(2) show False by simp
  qed
  have mem: "coveredButton \<in> set (interactive coveredPage)"
    "freeButton \<in> set (interactive coveredPage)" "belowFold \<in> set (interactive coveredPage)"
    by (simp_all add: coveredPage_def)
  have el: "rectWidth freeButton \<noteq> 0" "rectHeight freeButton \<noteq> 0"
    "\<not> isHidden freeButton" "\<not> isDisabled freeButton"
    "rectWidth belowFold \<noteq> 0" "rectHeight belowFold \<noteq> 0"
    "\<not> isHidden belowFold" "\<not> isDisabled belowFold"
    "rectWidth coveredButton \<noteq> 0" "rectHeight coveredButton \<noteq> 0"
    "\<not> isHidden coveredButton" "\<not> isDisabled coveredButton"
    unfolding freeButton_def belowFold_def coveredButton_def by (rule plain_eligible)+
  from occlusion_filter [where el = coveredButton and pg = coveredPage and off = False
      and dis = False] hidden example_page_facts(3)
  have 1: "coveredButton \<notin> set (markedElements coveredPage False False)" by blast
  from occlusion_filter [where el = freeButton and pg = coveredPage and off = False
      and dis = False] seen example_page_facts(4) mem el
  have 2: "freeButton \<in> set (markedElements coveredPage False False)" by blast
  from occlusion_filter [where el = belowFold and pg = coveredPage and off = False
      and dis = False] example_page_facts(5)
  have 3: "belowFold \<notin> set (markedElements coveredPage False False)" by blast
  from occlusion_filter [where el = belowFold and pg = coveredPage and off = True
      and dis = False] example_page_facts(5) mem el
  have 4: "belowFold \<in> set (markedElements coveredPage True False)" by blast
  from occlusion_filter [where el = coveredButton and pg = coveredPage and off = True
      and dis = False] mem el
  have 5: "coveredButton \<in> set (markedElements coveredPage True False)" by blast
  from 1 2 3 4 5 show ?thesis by blast
qed

theorem occlusion_counterexample:
  "isInViewport coveredPage coveredButton
   \<and> visiblePoints coveredPage coveredButton = 0
   \<and> coveredButton \<in> set (markedElements coveredPage True False)"
  using example_page_facts by simp

subsection \<open>act()\<close>

lemma actRound_wait:
  assumes "answersWait r"
  shows "actRound cfg objective st r =
           (if waitRetryLimit cfg \<le> waitCount st
            then Some (Throw (Error (''LLM requested wait beyond max attempts (''
                                @ showNat (waitRetryLimit cfg) @ '').'')) st)
            else Some (Continue (st\<lparr>waitCount := waitCount st + 1\<rparr>)))"
proof -
  from assms obtain rest aiResult where
    s: "stabilization r = AttemptOk # rest" and l: "llm r = Inr aiResult" "shouldWait aiResult"
    by (auto simp: answersWait_def split: list.splits attempt.splits sum.splits)
  then show ?thesis by (simp add: actRound_def Let_def)
qed

lemma actLoop_wait:
  "\<forall>r \<in> set rounds. answersWait r \<Longrightarrow> waitCount st \<le> waitRetryLimit cfg
     \<Longrightarrow> waitRetryLimit cfg - waitCount st < length rounds
     \<Longrightarrow> actLoop cfg objective st rounds
           = Some (Threw (Error (''LLM requested wait beyond max attempts (''
                            @ showNat (waitRetryLimit cfg) @ '').'')), dispatched st)"
proof (induction rounds arbitrary: st)
  case Nil
  then show ?case by simp
next
  case (Cons r rs)
  from Cons.prems(1) have w: "answersWait r" and ws: "\<forall>r \<in> set rs. answersWait r" by simp_all
  show ?case
  proof (cases "waitRetryLimit cfg \<le> waitCount st")
    case True
    then show ?thesis by (simp add: actRound_wait [OF w])
  next
    case False
    let ?st = "st\<lparr>waitCount := waitCount st + 1\<rparr>"
    from False Cons.prems have "waitCount ?st \<le> waitRetryLimit cfg"
      "waitRetryLimit cfg - waitCount ?st < length rs" by simp_all
    from Cons.IH [OF ws this] False show ?thesis
      by (simp add: actRound_wait [OF w])
  qed
qed

text \<open>
  C5.  In a round whose preparation succeeds and in which the oracle answers with
  \<open>shouldWait\<close> set, whatever else the answer holds: when the wait counter has reached
  the limit, \<open>act\<close> throws the error whose message names the limit; below the limit
  the counter is incremented and the loop continues, with the accumulated results and
  the dispatched commands unchanged, so commands and pre-commands that came with the
  answer are ignored.  Hence, when the oracle answers so in more rounds than the limit,
  \<open>act\<close> throws that error, and no command has been dispatched.
\<close>

theorem act_wait_limit:
  "(\<forall>st r. answersWait r \<longrightarrow>
       actRound cfg objective st r =
         (if waitRetryLimit cfg \<le> waitCount st
          then Some (Throw (Error (''LLM requested wait beyond max attempts (''
                              @ showNat (waitRetryLimit cfg) @ '').'')) st)
          else Some (Continue (st\<lparr>waitCount := waitCount st + 1\<rparr>))))
   \<and> (\<forall>rounds. waitRetryLimit cfg < length rounds \<and> (\<forall>r \<in> set rounds. answersWait r) \<longrightarrow>
         act cfg True objective rounds
           = Some (Threw (Error (''LLM requested wait beyond max attempts (''
                            @ showNat (waitRetryLimit cfg) @ '').'')), []))"
proof (intro conjI allI impI)
  fix st r
  assume "answersWait r"
  then show "actRound cfg objective st r =
         (if waitRetryLimit cfg \<le> waitCount st
          then Some (Throw (Error (''LLM requested wait beyond max attempts (''
                              @ showNat (waitRetryLimit cfg) @ '').'')) st)
          else Some (Continue (st\<lparr>waitCount := waitCount st + 1\<rparr>)))"
    by (rule actRound_wait)
next
  fix rounds
  assume a: "waitRetryLimit cfg < length rounds \<and> (\<forall>r \<in> set rounds. answersWait r)"
  then have "actLoop cfg objective initialState rounds
           = Some (Threw (Error (''LLM requested wait beyond max attempts (''
                            @ showNat (waitRetryLimit cfg) @ '').'')), dispatched initialState)"
    by (intro actLoop_wait) (simp_all add: initialState_def)
  then show "act cfg True objective rounds
           = Some (Threw (Error (''LLM requested wait beyond max attempts (''
                            @ showNat (waitRetryLimit cfg) @ '').'')), [])"
    by (simp add: act_def initialState_def)
qed

lemma showNat_2: "showNat 2 = ''2''"
  by code_simp

theorem act_wait_limit_witness:
  "answersWait waitRound
   \<and> waitRetryLimit exampleConfig < length [waitRound, waitRound, waitRound]
   \<and> act exampleConfig True ''log in'' [waitRound, waitRound, waitRound]
       = Some (Threw (Error ''LLM requested wait beyond max attempts (2).''), [])"
proof -
  have w: "answersWait waitRound"
    by (simp add: answersWait_def waitRound_def emptyResponse_def)
  have l: "waitRetryLimit exampleConfig = 2"
    by (simp add: exampleConfig_def)
  from act_wait_limit [of exampleConfig "''log in''"] w l
  have "act exampleConfig True ''log in'' [waitRound, waitRound, waitRound]
           = Some (Threw (Error (''LLM requested wait beyond max attempts (''
                            @ showNat (waitRetryLimit exampleConfig) @ '').'')), [])"
    by simp
  with w l show ?thesis by (simp add: showNat_2)
qed

text \<open>
  C6.  When the preparation before the first oracle call succeeds and the first answer
  has \<open>stepCompleted\<close> set (and \<open>shouldWait\<close> not set), \<open>act\<close> returns at once with
  status success and an empty list of command results, and no command has been
  dispatched to the Action Executor.
\<close>

theorem act_step_completed:
  assumes "stabilizeForLlm (''ai.act objective: '' @ objective) 0 (waitRetryLimit cfg)
             (stabilization r) = Some (Inr wc)"
    and "llm r = Inr aiResult" and "stepCompleted aiResult" and "\<not> shouldWait aiResult"
  shows "act cfg True objective (r # rs)
           = Some (Returned \<lparr> command_results = [], actStatus = SUCCESS, actError = None \<rparr>, [])"
  using assms by (simp add: act_def initialState_def actRound_def Let_def)

theorem act_step_completed_witness:
  "stepCompleted (emptyResponse\<lparr> stepCompleted := True \<rparr>)
   \<and> act exampleConfig True ''log in'' [doneRound]
       = Some (Returned \<lparr> command_results = [], actStatus = SUCCESS, actError = None \<rparr>, [])"
proof -
  have s: "stabilizeForLlm (''ai.act objective: '' @ ''log in'') 0 (waitRetryLimit exampleConfig)
             (stabilization doneRound) = Some (Inr 0)"
    by (simp add: doneRound_def)
  have l: "llm doneRound = Inr (emptyResponse\<lparr> stepCompleted := True \<rparr>)"
    by (simp add: doneRound_def)
  have f: "stepCompleted (emptyResponse\<lparr> stepCompleted := True \<rparr>)"
    "\<not> shouldWait (emptyResponse\<lparr> stepCompleted := True \<rparr>)"
    by (simp_all add: emptyResponse_def)
  from act_step_completed [OF s l f, of "[]"] f(1) show ?thesis by simp
qed

subsection \<open>verify()\<close>

lemma verifyLoop_answers:
  "\<not> requestSomRefresh aiResult \<Longrightarrow>
     verifyLoop cfg requirement thr expectFn waited calls (answers aiResult # rest)
       = (case extractVerification aiResult of
            Inl e \<Rightarrow> Some \<lparr> outcome = VerifyThrew e, assertions = [], oracleCalls = calls + 1 \<rparr>
          | Inr response \<Rightarrow>
              if stepCompleted aiResult \<or> respVerificationSuccess response
              then Some \<lparr> outcome = VerifyReturned response, assertions = [],
                          oracleCalls = calls + 1 \<rparr>
              else
                (case expectFn of
                   None \<Rightarrow>
                     Some \<lparr> outcome = VerifyThrew (Error
                       ''verify() requires Playwright expect. Pass the Playwright test object or provide expect explicitly.''),
                       assertions = [], oracleCalls = calls + 1 \<rparr>
                 | Some f \<Rightarrow>
                     Some \<lparr> outcome =
                              fst (assertVerification f requirement
                                    (max 0 (case thr of None \<Rightarrow> DEFAULT_CONFIDENCE_THRESHOLD
                                            | Some t \<Rightarrow> t)) response),
                            assertions =
                              snd (assertVerification f requirement
                                    (max 0 (case thr of None \<Rightarrow> DEFAULT_CONFIDENCE_THRESHOLD
                                            | Some t \<Rightarrow> t)) response),
                            oracleCalls = calls + 1 \<rparr>))"
  by (simp add: answers_def Let_def split: sum.splits option.splits prod.splits)



lemma extractVerification_lowConfidence:
  "extractVerification lowConfidence
     = Inr \<lparr> respVerificationSuccess = False, respConfidence = 40,
             respVerificationReason = None \<rparr>"
  by (simp add: extractVerification_def lowConfidence_def emptyResponse_def)

lemma extractVerification_verified:
  "extractVerification verified
     = Inr \<lparr> respVerificationSuccess = True, respConfidence = 90,
             respVerificationReason = None \<rparr>"
  by (simp add: extractVerification_def verified_def emptyResponse_def)

lemma showInt_40_70: "showInt 40 = ''40''" "showInt 70 = ''70''"
  by code_simp+

text \<open>
  C7 (as the code has it).  Let the oracle answer a verification request with a
  response that carries \<open>verificationSuccess\<close> and \<open>confidence\<close> and does not ask for a
  refresh.  If the response signals completion or \<open>verificationSuccess\<close> is true,
  \<open>verify\<close> returns the response after that one oracle call and hands no assertion to
  the host's assertion function, whatever that function is and even if there is none.
  Otherwise, if the confidence is below the threshold (the option's value or 70, and
  at least 0), \<open>verify\<close> does not end with a system error of its own: under a host
  function that records failures and returns, both the confidence assertion and the
  success assertion are handed over, in this order, both fail, and \<open>verify\<close> returns
  the response; under a host function that throws at a failed assertion, only the
  confidence assertion is handed over and \<open>verify\<close> ends with that assertion failure.
  The message of the confidence assertion cites the confidence and the threshold, the
  message of the success assertion the requirement and the reason, if there is one.
\<close>

theorem verify_assertions:
  assumes "extractVerification aiResult = Inr response"
    and "\<not> requestSomRefresh aiResult"
    and "threshold = max 0 (case thr of None \<Rightarrow> DEFAULT_CONFIDENCE_THRESHOLD | Some t \<Rightarrow> t)"
    and "confidenceAssertion =
           \<lparr> assertionMessage =
               ''AI verification confidence '' @ showInt (respConfidence response)
                 @ '' is below threshold '' @ showInt threshold,
             holds = False \<rparr>"
    and "successAssertion =
           \<lparr> assertionMessage =
               ''AI verification failed for requirement: '' @ requirement
                 @ (case respVerificationReason response of
                      None \<Rightarrow> [] | Some reason \<Rightarrow> if reason = [] then [] else '' - '' @ reason),
             holds = False \<rparr>"
  shows "if stepCompleted aiResult \<or> respVerificationSuccess response
         then verify cfg True requirement thr expectFn (answers aiResult # rest)
                = Some \<lparr> outcome = VerifyReturned response, assertions = [], oracleCalls = 1 \<rparr>
         else respConfidence response < threshold \<longrightarrow>
                verify cfg True requirement thr (Some SoftExpect) (answers aiResult # rest)
                  = Some \<lparr> outcome = VerifyReturned response,
                           assertions = [confidenceAssertion, successAssertion],
                           oracleCalls = 1 \<rparr>
                \<and> verify cfg True requirement thr (Some ThrowingExpect) (answers aiResult # rest)
                  = Some \<lparr> outcome = AssertionFailure (assertionMessage confidenceAssertion),
                           assertions = [confidenceAssertion], oracleCalls = 1 \<rparr>"
proof (cases "stepCompleted aiResult \<or> respVerificationSuccess response")
  case True
  then show ?thesis
    using assms(1,2) by (simp add: verify_def verifyLoop_answers del: verifyLoop.simps)
next
  case False
  have t: "truthy (respVerificationReason response)
             = (case respVerificationReason response of None \<Rightarrow> False | Some reason \<Rightarrow> reason \<noteq> [])"
    by (cases "respVerificationReason response") (simp_all add: truthy_def)
  show ?thesis
    using False assms
    by (auto simp: verify_def verifyLoop_answers assertVerification_def Let_def t orEmpty_def
             simp del: verifyLoop.simps split: option.splits)
qed

theorem verify_assertions_witness:
  "verify exampleConfig True ''cart is empty'' (Some 70) (Some SoftExpect) [answers lowConfidence]
     = Some \<lparr> outcome =
                VerifyReturned \<lparr> respVerificationSuccess = False, respConfidence = 40,
                                 respVerificationReason = None \<rparr>,
              assertions =
                [\<lparr> assertionMessage = ''AI verification confidence 40 is below threshold 70'',
                   holds = False \<rparr>,
                 \<lparr> assertionMessage = ''AI verification failed for requirement: cart is empty'',
                   holds = False \<rparr>],
              oracleCalls = 1 \<rparr>
   \<and> verify exampleConfig True ''cart is empty'' (Some 70) None [answers verified]
     = Some \<lparr> outcome =
                VerifyReturned \<lparr> respVerificationSuccess = True, respConfidence = 90,
                                 respVerificationReason = None \<rparr>,
              assertions = [], oracleCalls = 1 \<rparr>"
proof -
  have r: "\<not> requestSomRefresh lowConfidence" "\<not> stepCompleted lowConfidence"
    "\<not> requestSomRefresh verified"
    by (simp_all add: lowConfidence_def verified_def emptyResponse_def)
  note low = verify_assertions [OF extractVerification_lowConfidence r(1) refl refl refl,
      where thr = "Some 70" and requirement = "''cart is empty''" and cfg = exampleConfig
        and rest = "[]" and expectFn = None]
  note high = verify_assertions [OF extractVerification_verified r(3) refl refl refl,
      where thr = "Some 70" and requirement = "''cart is empty''" and cfg = exampleConfig
        and rest = "[]" and expectFn = None]
  from low r(2) have
    "verify exampleConfig True ''cart is empty'' (Some 70) (Some SoftExpect) [answers lowConfidence]
     = Some \<lparr> outcome =
                VerifyReturned \<lparr> respVerificationSuccess = False, respConfidence = 40,
                                 respVerificationReason = None \<rparr>,
              assertions =
                [\<lparr> assertionMessage = ''AI verification confidence 40 is below threshold 70'',
                   holds = False \<rparr>,
                 \<lparr> assertionMessage = ''AI verification failed for requirement: cart is empty'',
                   holds = False \<rparr>],
              oracleCalls = 1 \<rparr>"
    by (simp add: showInt_40_70)
  moreover from high have
    "verify exampleConfig True ''cart is empty'' (Some 70) None [answers verified]
     = Some \<lparr> outcome =
                VerifyReturned \<lparr> respVerificationSuccess = True, respConfidence = 90,
                                 respVerificationReason = None \<rparr>,
              assertions = [], oracleCalls = 1 \<rparr>"
    by simp
  ultimately show ?thesis by simp
qed

text \<open>
  C7, counterexample.  Under a host assertion function that throws at a failed
  assertion, the response \<open>{verificationSuccess: false, confidence: 40}\<close> against the
  threshold 70 makes one assertion fail, not two: the success assertion is never handed
  over.  And a response that signals completion but carries no \<open>verificationSuccess\<close>
  field does not short-circuit: \<open>verify\<close> throws a system error.
\<close>

theorem verify_assertions_counterexample:
  "verify exampleConfig True ''cart is empty'' (Some 70) (Some ThrowingExpect)
       [answers lowConfidence]
     = Some \<lparr> outcome = AssertionFailure ''AI verification confidence 40 is below threshold 70'',
              assertions =
                [\<lparr> assertionMessage = ''AI verification confidence 40 is below threshold 70'',
                   holds = False \<rparr>],
              oracleCalls = 1 \<rparr>
   \<and> verify exampleConfig True ''cart is empty'' (Some 70) (Some ThrowingExpect)
       [answers completedOnly]
     = Some \<lparr> outcome = VerifyThrew (Error ''LLM response missing verificationSuccess field.''),
              assertions = [], oracleCalls = 1 \<rparr>"
  by code_simp




end
